theory Spec2Isabelle
  imports Main "HOL-Library.Char_ord" "HOL-Library.List_Lexorder"
begin

section \<open>Python strings and exceptions\<close>

text \<open>
  SQL text, identifiers and configuration entries are modelled as \<open>string\<close>, one
  \<open>char\<close> per code point, for text whose code points lie below 256 (Latin-1). On such
  text Python's \<open>str.lower\<close> changes the 26 ASCII capitals and the 30 accented capitals
  \<open>U+00C0\<close> to \<open>U+00DE\<close> (without the sign \<open>U+00D7\<close>); \<open>str.upper\<close> changes the
  corresponding small letters and writes \<open>SS\<close> for the sharp s \<open>U+00DF\<close>;
  \<open>str.isspace\<close> holds for the twelve characters listed in \<open>py_whitespace\<close>. The
  capitals of the micro sign \<open>U+00B5\<close> and of \<open>U+00FF\<close> lie beyond \<open>U+00FF\<close>; \<open>upper\<close>
  keeps these two characters, which, like their capitals, equal no ASCII letter, so that no
  comparison with an ASCII word is affected.
\<close>

definition ascii_uppercase :: string where
  "ascii_uppercase = ''ABCDEFGHIJKLMNOPQRSTUVWXYZ''"

definition ascii_lowercase :: string where
  "ascii_lowercase = ''abcdefghijklmnopqrstuvwxyz''"

definition latin1_uppercase :: string where
  "latin1_uppercase =
     [CHR 0xC0, CHR 0xC1, CHR 0xC2, CHR 0xC3, CHR 0xC4, CHR 0xC5, CHR 0xC6, CHR 0xC7,
     CHR 0xC8, CHR 0xC9, CHR 0xCA, CHR 0xCB, CHR 0xCC, CHR 0xCD, CHR 0xCE, CHR 0xCF,
     CHR 0xD0, CHR 0xD1, CHR 0xD2, CHR 0xD3, CHR 0xD4, CHR 0xD5, CHR 0xD6, CHR 0xD8,
     CHR 0xD9, CHR 0xDA, CHR 0xDB, CHR 0xDC, CHR 0xDD, CHR 0xDE]"

definition latin1_lowercase :: string where
  "latin1_lowercase =
     [CHR 0xE0, CHR 0xE1, CHR 0xE2, CHR 0xE3, CHR 0xE4, CHR 0xE5, CHR 0xE6, CHR 0xE7,
     CHR 0xE8, CHR 0xE9, CHR 0xEA, CHR 0xEB, CHR 0xEC, CHR 0xED, CHR 0xEE, CHR 0xEF,
     CHR 0xF0, CHR 0xF1, CHR 0xF2, CHR 0xF3, CHR 0xF4, CHR 0xF5, CHR 0xF6, CHR 0xF8,
     CHR 0xF9, CHR 0xFA, CHR 0xFB, CHR 0xFC, CHR 0xFD, CHR 0xFE]"

definition lower_char :: "char \<Rightarrow> char" where
  "lower_char c =
     (case map_of (zip (ascii_uppercase @ latin1_uppercase)
                       (ascii_lowercase @ latin1_lowercase)) c of
        Some d \<Rightarrow> d | None \<Rightarrow> c)"

definition upper_char :: "char \<Rightarrow> string" where
  "upper_char c =
     (if c = CHR 0xDF then ''SS''
      else case map_of (zip (ascii_lowercase @ latin1_lowercase)
                            (ascii_uppercase @ latin1_uppercase)) c of
             Some d \<Rightarrow> [d] | None \<Rightarrow> [c])"

definition lower :: "string \<Rightarrow> string" where
  "lower s = map lower_char s"

definition upper :: "string \<Rightarrow> string" where
  "upper s = concat (map upper_char s)"

definition py_whitespace :: "char list" where
  "py_whitespace = [CHR 0x09, CHR 0x0A, CHR 0x0B, CHR 0x0C, CHR 0x0D,
                    CHR 0x1C, CHR 0x1D, CHR 0x1E, CHR 0x1F, CHR 0x20,
                    CHR 0x85, CHR 0xA0]"

definition isspace :: "char \<Rightarrow> bool" where
  "isspace c = (c \<in> set py_whitespace)"

definition strip :: "string \<Rightarrow> string" where
  "strip s = rev (dropWhile isspace (rev (dropWhile isspace s)))"

fun startswith :: "string \<Rightarrow> string \<Rightarrow> bool" where
  "startswith s [] = True"
| "startswith [] (p # ps) = False"
| "startswith (c # cs) (p # ps) = (c = p \<and> startswith cs ps)"

text \<open>Python's \<open>needle in haystack\<close> on strings: substring search.\<close>

fun py_in :: "string \<Rightarrow> string \<Rightarrow> bool" where
  "py_in needle [] = (needle = [])"
| "py_in needle (c # cs) = (startswith (c # cs) needle \<or> py_in needle cs)"

definition quote :: string where
  "quote = [CHR 0x27]"

text \<open>
  Modelled from the spec: the error classes are declared in \<open>pg_mcp.models.errors\<close>,
  which is not among the sources. Exceptions are values. \<open>SQLParseError\<close> and
  \<open>SecurityViolationError\<close> are the two classes the validator raises, carrying their
  message, which is also their \<open>str\<close>;
  \<open>LibException\<close> is any other instance of Python's \<open>Exception\<close> (a parse error of
  the SQL library, a \<open>ValueError\<close>, ...), with its \<open>str\<close>; \<open>BaseOnly\<close> is an
  instance of \<open>BaseException\<close> that is not an \<open>Exception\<close>
  (\<open>asyncio.CancelledError\<close>, \<open>KeyboardInterrupt\<close>, \<open>SystemExit\<close>), which a clause
  \<open>except Exception\<close> does not catch.
\<close>

datatype py_exc =
    SQLParseError string
  | SecurityViolationError string
  | LibException string
  | BaseOnly string

fun is_Exception :: "py_exc \<Rightarrow> bool" where
  "is_Exception (BaseOnly m) = False"
| "is_Exception e = True"

fun str_exc :: "py_exc \<Rightarrow> string" where
  "str_exc (SQLParseError m) = m"
| "str_exc (SecurityViolationError m) = m"
| "str_exc (LibException m) = m"
| "str_exc (BaseOnly m) = m"

section \<open>The syntax tree of the SQL library\<close>

text \<open>
  The validator inspects the tree \<open>sqlglot\<close> returns. A node has a class, and the
  validator reads three attributes of it: \<open>this\<close> (for a command, the command word),
  \<open>name\<close> and \<open>table\<close> (the empty string when absent), and walks its child nodes.
  \<open>exp_class\<close> lists the classes of \<open>sqlglot.exp\<close> the validator tests with
  \<open>isinstance\<close>, the two further statement classes \<open>TruncateTable\<close> and \<open>Copy\<close>,
  every function class (\<open>exp_Func\<close>, with its key) and every other class
  (\<open>exp_Other\<close>, with its key). The key of a class is its lower-cased name.
\<close>

datatype exp_class =
    exp_Command | exp_Select | exp_Union | exp_With | exp_Subquery
  | exp_Insert | exp_Update | exp_Delete | exp_Create | exp_Drop
  | exp_Alter | exp_Grant | exp_Revoke
  | exp_TruncateTable | exp_Copy
  | exp_Table | exp_Column
  | exp_Func string
  | exp_Other string

fun key_of :: "exp_class \<Rightarrow> string" where
  "key_of exp_Command = ''command''"
| "key_of exp_Select = ''select''"
| "key_of exp_Union = ''union''"
| "key_of exp_With = ''with''"
| "key_of exp_Subquery = ''subquery''"
| "key_of exp_Insert = ''insert''"
| "key_of exp_Update = ''update''"
| "key_of exp_Delete = ''delete''"
| "key_of exp_Create = ''create''"
| "key_of exp_Drop = ''drop''"
| "key_of exp_Alter = ''alter''"
| "key_of exp_Grant = ''grant''"
| "key_of exp_Revoke = ''revoke''"
| "key_of exp_TruncateTable = ''truncatetable''"
| "key_of exp_Copy = ''copy''"
| "key_of exp_Table = ''table''"
| "key_of exp_Column = ''column''"
| "key_of (exp_Func k) = k"
| "key_of (exp_Other k) = k"

fun is_Func :: "exp_class \<Rightarrow> bool" where
  "is_Func (exp_Func k) = True"
| "is_Func c = False"

datatype node =
  Node (cls: exp_class) (this: string) (name: string) (table: string) (args: "node list")

definition key :: "node \<Rightarrow> string" where
  "key n = key_of (cls n)"

text \<open>
  \<open>Expression.walk()\<close> visits the node and all its descendants breadth first;
  \<open>find_all(C)\<close> keeps the visited nodes of class \<open>C\<close>.
\<close>

lemma sum_list_size_le: "sum_list (map size ns) \<le> size_list size (ns :: node list)"
  by (induction ns) auto

function bfs :: "node list \<Rightarrow> node list" where
  "bfs [] = []"
| "bfs (n # queue) = n # bfs (queue @ args n)"
  by pat_completeness auto
termination
proof (relation "measure (\<lambda>q. sum_list (map size q))")
  show "wf (measure (\<lambda>q. sum_list (map size q)))" by simp
next
  fix n :: node and queue :: "node list"
  have "sum_list (map size (args n)) < size n"
    using sum_list_size_le [of "args n"] by (cases n) simp
  then show "(queue @ args n, n # queue) \<in> measure (\<lambda>q. sum_list (map size q))"
    by simp
qed

definition walk :: "node \<Rightarrow> node list" where
  "walk statement = bfs [statement]"

definition find_all :: "exp_class \<Rightarrow> node \<Rightarrow> node list" where
  "find_all c statement = filter (\<lambda>n. cls n = c) (walk statement)"

text \<open>
  The library itself is a parameter: \<open>parse_one\<close> and \<open>parse\<close> are
  \<open>sqlglot.parse_one\<close> and \<open>sqlglot.parse\<close> (a list whose entries may be \<open>None\<close>),
  \<open>to_sql\<close> is \<open>Expression.sql()\<close>. Each may raise.
\<close>

record sqlglot =
  parse_one :: "string \<Rightarrow> py_exc + node"
  parse :: "string \<Rightarrow> py_exc + node option list"
  to_sql :: "node \<Rightarrow> py_exc + string"

section \<open>SQLValidator\<close>

text \<open>
  Modelled from the spec: \<open>ExplainPolicy\<close> and \<open>SecurityConfig\<close> are declared in
  \<open>pg_mcp.config.settings\<close>, which is not among the sources. The policy is one of
  \<open>DISABLED\<close>, \<open>EXPLAIN_ONLY\<close>, \<open>EXPLAIN_ANALYZE\<close>; of the configuration the validator
  reads only the list \<open>blocked_functions\<close>.
\<close>

datatype ExplainPolicy = DISABLED | EXPLAIN_ONLY | EXPLAIN_ANALYZE

record SecurityConfig =
  config_blocked_functions :: "string list"

record SQLValidator =
  config :: SecurityConfig
  blocked_tables :: "string set"
  blocked_columns :: "string set"
  explain_policy :: ExplainPolicy
  blocked_functions :: "string set"

text \<open>\<open>SQLValidator.__init__\<close>: every deny-list is stored lower-cased.\<close>

definition or_empty :: "string list option \<Rightarrow> string list" where
  "or_empty xs = (case xs of None \<Rightarrow> [] | Some ys \<Rightarrow> ys)"

definition init :: "SecurityConfig \<Rightarrow> string list option \<Rightarrow> string list option
    \<Rightarrow> ExplainPolicy \<Rightarrow> SQLValidator" where
  "init cfg tables columns policy =
     \<lparr> config = cfg,
       blocked_tables = set (map lower (or_empty tables)),
       blocked_columns = set (map lower (or_empty columns)),
       explain_policy = policy,
       blocked_functions = set (map lower (config_blocked_functions cfg)) \<rparr>"

text \<open>
  \<open>_check_statement_type\<close>. The branch for \<open>exp.With\<close> in the source only passes, so
  it does not appear; the tuples \<open>forbidden_types\<close> and \<open>allowed_types\<close> are the
  source's.
\<close>

definition forbidden_types :: "exp_class list" where
  "forbidden_types = [exp_Insert, exp_Update, exp_Delete, exp_Create, exp_Drop,
                      exp_Alter, exp_Grant, exp_Revoke]"

definition allowed_types :: "exp_class list" where
  "allowed_types = [exp_Select, exp_Union, exp_Subquery]"

definition check_statement_type :: "SQLValidator \<Rightarrow> node \<Rightarrow> string \<Rightarrow> py_exc + unit" where
  "check_statement_type self statement sql =
     (if cls statement = exp_Command then
        (let cmd_name = (if this statement \<noteq> [] then upper (this statement) else [])
         in if cmd_name = ''EXPLAIN'' then
              (if explain_policy self = DISABLED
               then Inl (SecurityViolationError ''EXPLAIN statements are not allowed'')
               else if explain_policy self = EXPLAIN_ONLY \<and> py_in ''ANALYZE'' (upper sql)
               then Inl (SecurityViolationError ''EXPLAIN ANALYZE is not allowed'')
               else Inr ())
            else Inl (SecurityViolationError
                        (''Command '' @ quote @ cmd_name @ quote @ '' is not allowed'')))
      else if cls statement = exp_Select then Inr ()
      else if cls statement = exp_Union then Inr ()
      else if cls statement \<in> set forbidden_types
      then Inl (SecurityViolationError
                  (''Statement type '' @ quote @ upper (key statement) @ quote
                     @ '' is not allowed''))
      else if cls statement \<notin> set allowed_types then
        (let k = upper (key statement)
         in if k \<notin> set [''SELECT'', ''UNION'']
            then Inl (SecurityViolationError
                        (''Statement type '' @ quote @ k @ quote @ '' is not allowed''))
            else Inr ())
      else Inr ())"

fun blocked_functions_loop :: "SQLValidator \<Rightarrow> node list \<Rightarrow> py_exc + unit" where
  "blocked_functions_loop self [] = Inr ()"
| "blocked_functions_loop self (n # ns) =
     (if is_Func (cls n) \<and> lower (name n) \<in> blocked_functions self
      then Inl (SecurityViolationError
                  (''Function '' @ quote @ lower (name n) @ quote @ '' is not allowed''))
      else blocked_functions_loop self ns)"

definition check_blocked_functions :: "SQLValidator \<Rightarrow> node \<Rightarrow> py_exc + unit" where
  "check_blocked_functions self statement = blocked_functions_loop self (walk statement)"

fun blocked_tables_loop :: "SQLValidator \<Rightarrow> node list \<Rightarrow> py_exc + unit" where
  "blocked_tables_loop self [] = Inr ()"
| "blocked_tables_loop self (t # ts) =
     (if lower (name t) \<in> blocked_tables self
      then Inl (SecurityViolationError
                  (''Access to table '' @ quote @ lower (name t) @ quote @ '' is blocked''))
      else blocked_tables_loop self ts)"

definition check_blocked_tables :: "SQLValidator \<Rightarrow> node \<Rightarrow> py_exc + unit" where
  "check_blocked_tables self statement =
     (if blocked_tables self = {} then Inr ()
      else blocked_tables_loop self (find_all exp_Table statement))"

definition qualified_name :: "node \<Rightarrow> string" where
  "qualified_name column = lower (table column) @ ''.'' @ lower (name column)"

fun blocked_columns_loop :: "SQLValidator \<Rightarrow> node list \<Rightarrow> py_exc + unit" where
  "blocked_columns_loop self [] = Inr ()"
| "blocked_columns_loop self (c # cs) =
     (if lower (name c) \<in> blocked_columns self
      then Inl (SecurityViolationError
                  (''Access to column '' @ quote @ lower (name c) @ quote @ '' is blocked''))
      else if table c \<noteq> [] \<and> qualified_name c \<in> blocked_columns self
      then Inl (SecurityViolationError
                  (''Access to column '' @ quote @ qualified_name c @ quote @ '' is blocked''))
      else blocked_columns_loop self cs)"

definition check_blocked_columns :: "SQLValidator \<Rightarrow> node \<Rightarrow> py_exc + unit" where
  "check_blocked_columns self statement =
     (if blocked_columns self = {} then Inr ()
      else blocked_columns_loop self (find_all exp_Column statement))"

text \<open>
  \<open>validate_or_raise\<close>. Only the call of \<open>parse_one\<close> stands in the \<open>try\<close>: an
  \<open>Exception\<close> it raises becomes a \<open>SQLParseError\<close>; what \<open>sqlglot.parse\<close> raises
  propagates as it is.
\<close>

definition and_then :: "py_exc + unit \<Rightarrow> (py_exc + unit) \<Rightarrow> py_exc + unit" where
  "and_then r next_step = (case r of Inl e \<Rightarrow> Inl e | Inr u \<Rightarrow> next_step)"

definition validate_or_raise :: "SQLValidator \<Rightarrow> sqlglot \<Rightarrow> string \<Rightarrow> py_exc + unit" where
  "validate_or_raise self lib sql =
     (if sql = [] \<or> strip sql = [] then Inl (SQLParseError ''SQL query is empty'')
      else case parse_one lib sql of
        Inl e \<Rightarrow> (if is_Exception e
                  then Inl (SQLParseError (''Failed to parse SQL: '' @ str_exc e))
                  else Inl e)
      | Inr statement \<Rightarrow>
          (case parse lib sql of
             Inl e \<Rightarrow> Inl e
           | Inr parsed \<Rightarrow>
               if length parsed > 1
               then Inl (SecurityViolationError ''Multiple SQL statements are not allowed'')
               else and_then (check_statement_type self statement sql)
                      (and_then (check_blocked_functions self statement)
                         (and_then (check_blocked_tables self statement)
                            (check_blocked_columns self statement)))))"

definition validate :: "SQLValidator \<Rightarrow> sqlglot \<Rightarrow> string \<Rightarrow> py_exc + (bool \<times> string option)" where
  "validate self lib sql =
     (case validate_or_raise self lib sql of
        Inr u \<Rightarrow> Inr (True, None)
      | Inl (SecurityViolationError m) \<Rightarrow> Inr (False, Some m)
      | Inl (SQLParseError m) \<Rightarrow> Inr (False, Some m)
      | Inl e \<Rightarrow> Inl e)"

text \<open>
  \<open>normalize_sql\<close> and \<open>extract_tables\<close>. \<open>sorted(list(tables))\<close> of a Python set of
  strings is the duplicate-free list in code point order.
\<close>

definition reraise_as_parse_error :: "string \<Rightarrow> py_exc \<Rightarrow> py_exc" where
  "reraise_as_parse_error prefix e =
     (if is_Exception e then SQLParseError (prefix @ str_exc e) else e)"

definition normalize_sql :: "sqlglot \<Rightarrow> string \<Rightarrow> py_exc + string" where
  "normalize_sql lib sql =
     (case parse_one lib sql of
        Inl e \<Rightarrow> Inl (reraise_as_parse_error ''Failed to normalize SQL: '' e)
      | Inr statement \<Rightarrow>
          (case to_sql lib statement of
             Inl e \<Rightarrow> Inl (reraise_as_parse_error ''Failed to normalize SQL: '' e)
           | Inr text \<Rightarrow> Inr text))"

definition extract_tables :: "sqlglot \<Rightarrow> string \<Rightarrow> py_exc + string list" where
  "extract_tables lib sql =
     (case parse_one lib sql of
        Inl e \<Rightarrow> Inl (reraise_as_parse_error ''Failed to extract tables: '' e)
      | Inr statement \<Rightarrow> Inr (sort (remdups (map name (find_all exp_Table statement)))))"

section \<open>Notions the statements below use\<close>

text \<open>
  Two strings match up to ASCII case when they have the same length and differ only in
  the case of the letters \<open>a\<close> to \<open>z\<close>.
\<close>

definition same_letter :: "char \<Rightarrow> char \<Rightarrow> bool" where
  "same_letter a b = (a = b \<or> (a, b) \<in> set (zip ascii_uppercase ascii_lowercase)
                       \<or> (b, a) \<in> set (zip ascii_uppercase ascii_lowercase))"

definition eq_ignore_case :: "string \<Rightarrow> string \<Rightarrow> bool" where
  "eq_ignore_case s t = list_all2 same_letter s t"

text \<open>A column reference hits the stored deny-list by its bare or its qualified name.\<close>

definition column_blocked :: "SQLValidator \<Rightarrow> node \<Rightarrow> bool" where
  "column_blocked self c =
     (lower (name c) \<in> blocked_columns self
      \<or> (table c \<noteq> [] \<and> qualified_name c \<in> blocked_columns self))"

text \<open>
  The statement kinds the specification forbids by name. \<open>sqlglot\<close> has a class for
  each of them but \<open>VACUUM\<close>, which it parses as a command node whose word is
  \<open>VACUUM\<close>; a version of the library with a class of its own for it, of key
  \<open>vacuum\<close>, is covered too.
\<close>

definition named_forbidden_classes :: "exp_class list" where
  "named_forbidden_classes =
     [exp_Insert, exp_Update, exp_Delete, exp_Create, exp_Drop, exp_Alter, exp_Grant,
      exp_Revoke, exp_TruncateTable, exp_Copy, exp_Other ''vacuum'']"

definition forbidden_kind :: "node \<Rightarrow> bool" where
  "forbidden_kind statement =
     (cls statement \<in> set named_forbidden_classes
      \<or> (cls statement = exp_Command \<and> upper (this statement) = ''VACUUM''))"

definition is_explain :: "node \<Rightarrow> bool" where
  "is_explain statement =
     (cls statement = exp_Command \<and> upper (this statement) = ''EXPLAIN'')"

text \<open>
  A node is opaque to the deny-list walks when no function, table or column node is
  reached from it, as for the command node of an \<open>EXPLAIN\<close>, whose only child is a
  string literal holding the rest of the text.
\<close>

definition opaque :: "node \<Rightarrow> bool" where
  "opaque statement =
     list_all (\<lambda>n. \<not> is_Func (cls n) \<and> cls n \<noteq> exp_Table \<and> cls n \<noteq> exp_Column)
       (walk statement)"

text \<open>
  The specification's raw-text test: a semicolon outside single-quoted string
  literals.
\<close>

fun semicolon_scan :: "bool \<Rightarrow> string \<Rightarrow> bool" where
  "semicolon_scan in_literal [] = False"
| "semicolon_scan in_literal (c # cs) =
     (if c = CHR 0x27 then semicolon_scan (\<not> in_literal) cs
      else if c = CHR '';'' \<and> \<not> in_literal then True
      else semicolon_scan in_literal cs)"

definition separator_outside_literals :: "string \<Rightarrow> bool" where
  "separator_outside_literals sql = semicolon_scan False sql"

text \<open>
  The words of a text: maximal runs of letters, digits and underscores. PostgreSQL
  writes the option of \<open>EXPLAIN\<close> as \<open>ANALYZE\<close> or, in its other spelling, as
  \<open>ANALYSE\<close>: an \<open>EXPLAIN\<close> with the option has one of the two among its upper-cased
  words. A text free of both runs of letters has no such word.
\<close>

definition word_char :: "char \<Rightarrow> bool" where
  "word_char c = (c \<in> set (ascii_uppercase @ ascii_lowercase @ ''0123456789_''))"

fun words_from :: "string \<Rightarrow> string \<Rightarrow> string list" where
  "words_from cur [] = (if cur = [] then [] else [cur])"
| "words_from cur (c # cs) =
     (if word_char c then words_from (cur @ [c]) cs
      else if cur = [] then words_from [] cs
      else cur # words_from [] cs)"

definition sql_words :: "string \<Rightarrow> string list" where
  "sql_words sql = words_from [] sql"

definition analyze_option_word :: "string \<Rightarrow> bool" where
  "analyze_option_word sql =
     (''ANALYZE'' \<in> set (sql_words (upper sql)) \<or> ''ANALYSE'' \<in> set (sql_words (upper sql)))"

definition no_analyze_text :: "string \<Rightarrow> bool" where
  "no_analyze_text sql =
     (\<not> py_in ''ANALYZE'' (upper sql) \<and> \<not> py_in ''ANALYSE'' (upper sql))"

section \<open>Sample results of the SQL library\<close>

text \<open>
  The trees \<open>sqlglot\<close> returns for the sample inputs used below; on any other text this
  sample library raises. \<open>parse_one\<close> returns the first statement of \<open>parse\<close>.
\<close>

definition literal :: "string \<Rightarrow> node" where
  "literal s = Node (exp_Other ''literal'') s s [] []"

definition ident :: "string \<Rightarrow> node" where
  "ident s = Node (exp_Other ''identifier'') s s [] []"

definition table_ref :: "string \<Rightarrow> node" where
  "table_ref t = Node exp_Table t t [] [ident t]"

definition column_ref :: "string \<Rightarrow> string \<Rightarrow> node" where
  "column_ref t c = Node exp_Column c c t [ident c]"

definition from_clause :: "string \<Rightarrow> node" where
  "from_clause t = Node (exp_Other ''from'') t [] [] [table_ref t]"

definition command :: "string \<Rightarrow> string \<Rightarrow> node" where
  "command word rest = Node exp_Command word word [] [literal rest]"

definition select_one :: node where
  "select_one = Node exp_Select [] [] [] [literal ''1'']"

definition sample_parse :: "string \<Rightarrow> py_exc + node option list" where
  "sample_parse sql =
     (if sql = ''SELECT 1;'' then Inr [Some select_one]
      else if sql = ''SELECT 1; SELECT 1'' then Inr [Some select_one, Some select_one]
      else if sql = ''DELETE FROM users''
        then Inr [Some (Node exp_Delete ''users'' [] [] [table_ref ''users''])]
      else if sql = ''SELECT Password FROM Users''
        then Inr [Some (Node exp_Select [] [] []
                          [column_ref [] ''Password'', from_clause ''Users''])]
      else if sql = ''SELECT users.Email FROM users''
        then Inr [Some (Node exp_Select [] [] []
                          [column_ref ''users'' ''Email'', from_clause ''users''])]
      else if sql = ''SELECT PG_SLEEP(5)''
        then Inr [Some (Node exp_Select [] [] []
                          [Node (exp_Func ''anonymous'') ''PG_SLEEP'' ''PG_SLEEP'' []
                             [literal ''5'']])]
      else if sql = ''EXPLAIN DELETE FROM users''
        then Inr [Some (command ''EXPLAIN'' ''DELETE FROM users'')]
      else if sql = ''EXPLAIN SELECT analyzed FROM t''
        then Inr [Some (command ''EXPLAIN'' ''SELECT analyzed FROM t'')]
      else if sql = ''EXPLAIN ANALYZE SELECT 1''
        then Inr [Some (command ''EXPLAIN'' ''ANALYZE SELECT 1'')]
      else if sql = ''EXPLAIN SELECT PG_SLEEP(5)''
        then Inr [Some (command ''EXPLAIN'' ''SELECT PG_SLEEP(5)'')]
      else if sql = ''EXPLAIN SELECT password FROM users''
        then Inr [Some (command ''EXPLAIN'' ''SELECT password FROM users'')]
      else Inl (LibException ''ParseError''))"

definition sample_parse_one :: "string \<Rightarrow> py_exc + node" where
  "sample_parse_one sql =
     (case sample_parse sql of
        Inl e \<Rightarrow> Inl e
      | Inr [] \<Rightarrow> Inl (LibException ''No expression was parsed'')
      | Inr (None # rest) \<Rightarrow> Inl (LibException ''No expression was parsed'')
      | Inr (Some statement # rest) \<Rightarrow> Inr statement)"

definition sample_lib :: sqlglot where
  "sample_lib = \<lparr> parse_one = sample_parse_one, parse = sample_parse,
                  to_sql = (\<lambda>n. Inl (LibException ''not generated'')) \<rparr>"

definition sample_config :: SecurityConfig where
  "sample_config = \<lparr> config_blocked_functions = [''pg_sleep'', ''Pg_Read_File''] \<rparr>"

definition sample_validator :: "ExplainPolicy \<Rightarrow> SQLValidator" where
  "sample_validator policy =
     init sample_config (Some [''Users'']) (Some [''PASSWORD'', ''Users.Email'']) policy"

text \<open>
  What the three deny-list loops compare, stated on the entries as configured: the tree
  has a function node, a table node or a column node whose \<open>name\<close> attribute, as the
  library reports it (for a column also the form \<open>table.column\<close> of its \<open>table\<close> and
  \<open>name\<close> attributes), equals a configured entry up to ASCII case. For a function the
  library has no class of its own for, such as \<open>pg_sleep\<close>, the \<open>name\<close> attribute is the
  function's name. These are predicates on the parsed tree, not on the SQL text.
\<close>

definition function_node_match :: "SecurityConfig \<Rightarrow> node \<Rightarrow> bool" where
  "function_node_match cfg statement =
     list_ex (\<lambda>n. is_Func (cls n)
                \<and> list_ex (\<lambda>e. eq_ignore_case e (name n)) (config_blocked_functions cfg))
       (walk statement)"

definition table_node_match :: "string list option \<Rightarrow> node \<Rightarrow> bool" where
  "table_node_match tables statement =
     list_ex (\<lambda>t. list_ex (\<lambda>e. eq_ignore_case e (name t)) (or_empty tables))
       (find_all exp_Table statement)"

definition column_node_match :: "string list option \<Rightarrow> node \<Rightarrow> bool" where
  "column_node_match columns statement =
     list_ex (\<lambda>c. list_ex (\<lambda>e. eq_ignore_case e (name c)
                           \<or> (table c \<noteq> [] \<and> eq_ignore_case e (table c @ ''.'' @ name c)))
                    (or_empty columns))
       (find_all exp_Column statement)"

definition column_validator :: SQLValidator where
  "column_validator = init sample_config None (Some [''PASSWORD'', ''Users.Email'']) DISABLED"

definition explain_column_validator :: SQLValidator where
  "explain_column_validator = init sample_config None (Some [''PASSWORD'']) EXPLAIN_ONLY"

text \<open>
  The policy permits an \<open>EXPLAIN\<close> on a text: \<open>EXPLAIN_ANALYZE\<close> always does,
  \<open>EXPLAIN_ONLY\<close> when the upper-cased text does not contain \<open>ANALYZE\<close>.
\<close>

definition explain_permitted :: "SQLValidator \<Rightarrow> string \<Rightarrow> bool" where
  "explain_permitted self sql =
     (explain_policy self = EXPLAIN_ANALYZE
      \<or> (explain_policy self = EXPLAIN_ONLY \<and> \<not> py_in ''ANALYZE'' (upper sql)))"

text \<open>A validator with empty deny-lists.\<close>

definition open_validator :: "ExplainPolicy \<Rightarrow> SQLValidator" where
  "open_validator policy = init \<lparr> config_blocked_functions = [] \<rparr> None None policy"

section \<open>The host tool \<open>query\<close>\<close>

text \<open>
  The tool returns a Python dict; \<open>pyval\<close> has the values that occur in the dicts the
  tool builds itself. The collaborators that are not part of the tool are parameters:
  entering \<open>request_context()\<close> (it yields the request id), building the
  \<open>QueryRequest\<close> (with \<open>ReturnType(return_type)\<close>), \<open>hasattr\<close> and \<open>setattr\<close> of
  \<open>request_id\<close>, and \<open>QueryResponse.to_dict\<close>; each may raise. The global
  \<open>_orchestrator\<close> is \<open>None\<close> or an object whose \<open>execute_query\<close> is the given function.
  The result is what the tool returns or the exception it lets through, together with
  the list of requests passed to \<open>execute_query\<close>.
\<close>

datatype pyval = PyNone | PyBool bool | PyStr string | PyDict "(string \<times> pyval) list"

type_synonym pydict = "(string \<times> pyval) list"

record ('req, 'resp) host =
  request_context :: "py_exc + string"
  QueryRequest :: "string \<Rightarrow> string option \<Rightarrow> string \<Rightarrow> py_exc + 'req"
  has_request_id :: "'req \<Rightarrow> bool"
  set_request_id :: "'req \<Rightarrow> string \<Rightarrow> py_exc + 'req"
  to_dict :: "'resp \<Rightarrow> py_exc + pydict"

definition error_response :: "string \<Rightarrow> string \<Rightarrow> pyval \<Rightarrow> pydict" where
  "error_response code message details =
     [(''success'', PyBool False),
      (''error'', PyDict [(''code'', PyStr code), (''message'', PyStr message),
                          (''details'', details)])]"

definition request_scope :: "('req, 'resp) host \<Rightarrow> ('req \<Rightarrow> py_exc + 'resp) \<Rightarrow> string
    \<Rightarrow> string option \<Rightarrow> string \<Rightarrow> (py_exc + pydict) \<times> 'req list" where
  "request_scope h execute_query question database return_type =
     (case request_context h of
        Inl e \<Rightarrow> (Inl e, [])
      | Inr request_id \<Rightarrow>
          (case QueryRequest h question database return_type of
             Inl e \<Rightarrow> (Inl e, [])
           | Inr request \<Rightarrow>
               (case (if has_request_id h request
                      then set_request_id h request request_id else Inr request) of
                  Inl e \<Rightarrow> (Inl e, [])
                | Inr request' \<Rightarrow>
                    (case execute_query request' of
                       Inl e \<Rightarrow> (Inl e, [request'])
                     | Inr response \<Rightarrow>
                         (case to_dict h response of
                            Inl e \<Rightarrow> (Inl e, [request'])
                          | Inr result \<Rightarrow> (Inr result, [request']))))))"

definition query :: "('req, 'resp) host \<Rightarrow> ('req \<Rightarrow> py_exc + 'resp) option \<Rightarrow> string
    \<Rightarrow> string option \<Rightarrow> string \<Rightarrow> (py_exc + pydict) \<times> 'req list" where
  "query h orchestrator question database return_type =
     (case orchestrator of
        None \<Rightarrow>
          (Inr (error_response ''SERVER_NOT_INITIALIZED'' ''Server not initialized properly''
                  PyNone), [])
      | Some execute_query \<Rightarrow>
          if return_type \<notin> set [''sql'', ''result'']
          then (Inr (error_response ''INVALID_PARAMETER''
                       (''Invalid return_type: '' @ quote @ return_type @ quote
                          @ ''. Must be '' @ quote @ ''sql'' @ quote @ '' or '' @ quote
                          @ ''result'' @ quote @ ''.'')
                       (PyDict [(''return_type'', PyStr return_type)])), [])
          else
            (case request_scope h execute_query question database return_type of
               (Inl e, calls) \<Rightarrow>
                 if is_Exception e
                 then (Inr (error_response ''INVALID_REQUEST''
                              (''Invalid request parameters: '' @ str_exc e)
                              (PyDict [(''error'', PyStr (str_exc e))])), calls)
                 else (Inl e, calls)
             | (Inr result, calls) \<Rightarrow> (Inr result, calls)))"

text \<open>Reading a response: its \<open>success\<close> flag and the fields of its \<open>error\<close> object.\<close>

definition success_of :: "pydict \<Rightarrow> pyval option" where
  "success_of d = map_of d ''success''"

definition error_field :: "pydict \<Rightarrow> string \<Rightarrow> pyval option" where
  "error_field d k = (case map_of d ''error'' of
                        Some (PyDict e) \<Rightarrow> map_of e k
                      | _ \<Rightarrow> None)"

text \<open>
  A sample host whose collaborators all succeed, and two orchestrators: one that
  answers, one whose call is cancelled (\<open>asyncio.CancelledError\<close>).
\<close>

definition sample_host :: "(string, pydict) host" where
  "sample_host = \<lparr> request_context = Inr ''req-1'',
                   QueryRequest = (\<lambda>question database return_type.
                      if question = [] then Inl (LibException ''question must not be empty'')
                      else Inr question),
                   has_request_id = (\<lambda>request. False),
                   set_request_id = (\<lambda>request request_id. Inr request),
                   to_dict = (\<lambda>response. Inr response) \<rparr>"

definition answering :: "string \<Rightarrow> py_exc + pydict" where
  "answering request = Inr [(''success'', PyBool True)]"

definition cancelled :: "string \<Rightarrow> py_exc + pydict" where
  "cancelled request = Inl (BaseOnly ''CancelledError'')"

section \<open>Database pools at startup\<close>

text \<open>
  Step 3 of \<open>lifespan\<close>. The environment is a map from variable names to values;
  \<open>int\<close> of a string and \<open>create_pool\<close> are parameters and may raise. The registry
  \<open>_pools\<close> is a dict from database name to pool.

  Modelled from the spec: \<open>DatabaseConfig\<close> is declared in \<open>pg_mcp.config.settings\<close>,
  which is not among the sources; it is the record of host, port, name, user and
  password, the five fields the code passes.
\<close>

record DatabaseConfig =
  db_host :: string
  db_port :: int
  db_name :: string
  db_user :: string
  db_password :: string

type_synonym environ = "string \<rightharpoonup> string"

definition getenv :: "environ \<Rightarrow> string \<Rightarrow> string \<Rightarrow> string" where
  "getenv env k fallback = (case env k of Some v \<Rightarrow> v | None \<Rightarrow> fallback)"

text \<open>\<open>if os.getenv(k):\<close> holds when the variable is set to a non-empty string.\<close>

definition getenv_truthy :: "environ \<Rightarrow> string \<Rightarrow> bool" where
  "getenv_truthy env k = (case env k of Some v \<Rightarrow> v \<noteq> [] | None \<Rightarrow> False)"

definition db1_config :: "environ \<Rightarrow> int \<Rightarrow> DatabaseConfig" where
  "db1_config env port =
     \<lparr> db_host = getenv env ''DATABASE_HOST'' ''localhost'',
       db_port = port,
       db_name = getenv env ''DATABASE_NAME'' ''postgres'',
       db_user = getenv env ''DATABASE_USER'' ''postgres'',
       db_password = getenv env ''DATABASE_PASSWORD'' [] \<rparr>"

definition db2_config :: "environ \<Rightarrow> int \<Rightarrow> DatabaseConfig" where
  "db2_config env port =
     \<lparr> db_host = getenv env ''DATABASE2_HOST'' (getenv env ''DATABASE_HOST'' ''localhost''),
       db_port = port,
       db_name = getenv env ''DATABASE2_NAME'' [],
       db_user = getenv env ''DATABASE2_USER'' (getenv env ''DATABASE_USER'' ''postgres''),
       db_password = getenv env ''DATABASE2_PASSWORD'' (getenv env ''DATABASE_PASSWORD'' []) \<rparr>"

definition create_pools :: "environ \<Rightarrow> (string \<Rightarrow> py_exc + int)
    \<Rightarrow> (DatabaseConfig \<Rightarrow> py_exc + 'pool) \<Rightarrow> py_exc + (string \<rightharpoonup> 'pool)" where
  "create_pools env py_int create_pool =
     (case py_int (getenv env ''DATABASE_PORT'' ''5432'') of
        Inl e \<Rightarrow> Inl e
      | Inr port1 \<Rightarrow>
          (case create_pool (db1_config env port1) of
             Inl e \<Rightarrow> Inl e
           | Inr pool1 \<Rightarrow>
               if getenv_truthy env ''DATABASE2_NAME'' then
                 (case py_int (getenv env ''DATABASE2_PORT''
                                 (getenv env ''DATABASE_PORT'' ''5432'')) of
                    Inl e \<Rightarrow> Inl e
                  | Inr port2 \<Rightarrow>
                      (case create_pool (db2_config env port2) of
                         Inl e \<Rightarrow> Inl e
                       | Inr pool2 \<Rightarrow>
                           Inr ([db_name (db1_config env port1) \<mapsto> pool1]
                                  (db_name (db2_config env port2) \<mapsto> pool2))))
               else Inr [db_name (db1_config env port1) \<mapsto> pool1]))"

text \<open>Sample parameters: a decimal reader for two port numbers, and pools that are
  their own configuration.\<close>

definition sample_int :: "string \<Rightarrow> py_exc + int" where
  "sample_int s = (if s = ''5432'' then Inr 5432
                   else if s = ''5433'' then Inr 5433
                   else Inl (LibException ''ValueError''))"

definition sample_pool :: "DatabaseConfig \<Rightarrow> py_exc + DatabaseConfig" where
  "sample_pool cfg = Inr cfg"

text \<open>Two sample environments: one with a second database, one whose
  \<open>DATABASE2_NAME\<close> is set to the empty string.\<close>

definition second_env :: environ where
  "second_env = [''DATABASE_HOST'' \<mapsto> ''db.local'', ''DATABASE_NAME'' \<mapsto> ''app'',
                 ''DATABASE_USER'' \<mapsto> ''reader'', ''DATABASE2_NAME'' \<mapsto> ''analytics'',
                 ''DATABASE2_USER'' \<mapsto> ''analyst'']"

definition empty_name_env :: environ where
  "empty_name_env = [''DATABASE2_NAME'' \<mapsto> []]"

section \<open>Facts about the validator\<close>

lemmas case_defs = upper_def upper_char_def lower_def lower_char_def
  ascii_lowercase_def ascii_uppercase_def latin1_lowercase_def latin1_uppercase_def

lemma and_then_simps:
  "and_then (Inl e) r = Inl e" "and_then (Inr u) r = r"
  by (simp_all add: and_then_def)

lemma and_then_ok: "(and_then r s = Inr ()) = (r = Inr () \<and> s = Inr ())"
  by (cases r) (simp_all add: and_then_def)

lemma cmd_name_upper: "(if t \<noteq> [] then upper t else []) = upper t"
  by (simp add: upper_def)

lemma upper_key_forbidden:
  "c \<in> set named_forbidden_classes \<Longrightarrow> upper (key_of c) \<noteq> ''SELECT'' \<and> upper (key_of c) \<noteq> ''UNION''"
  unfolding named_forbidden_classes_def
  by (elim disjE | simp add: case_defs)+

lemma named_forbidden_not_allowed:
  "c \<in> set named_forbidden_classes \<Longrightarrow>
     c \<noteq> exp_Command \<and> c \<noteq> exp_Select \<and> c \<noteq> exp_Union \<and> c \<notin> set allowed_types"
  unfolding named_forbidden_classes_def allowed_types_def by auto

lemma forbidden_kind_rejected:
  assumes "forbidden_kind statement"
  shows "\<exists>m. check_statement_type self statement sql = Inl (SecurityViolationError m)"
proof (cases "cls statement = exp_Command")
  case True
  with assms have "upper (this statement) = ''VACUUM''"
    by (auto simp: forbidden_kind_def named_forbidden_classes_def)
  with True show ?thesis
    by (simp add: check_statement_type_def cmd_name_upper)
next
  case False
  with assms have c: "cls statement \<in> set named_forbidden_classes"
    by (simp add: forbidden_kind_def)
  from upper_key_forbidden [OF c] named_forbidden_not_allowed [OF c]
  show ?thesis
    by (simp add: check_statement_type_def key_def Let_def)
qed

lemma validate_or_raise_ok:
  "validate_or_raise self lib sql = Inr () \<Longrightarrow>
     \<exists>statement parsed. parse_one lib sql = Inr statement \<and> parse lib sql = Inr parsed
       \<and> length parsed \<le> 1 \<and> strip sql \<noteq> []
       \<and> check_statement_type self statement sql = Inr ()
       \<and> check_blocked_functions self statement = Inr ()
       \<and> check_blocked_tables self statement = Inr ()
       \<and> check_blocked_columns self statement = Inr ()"
  unfolding validate_or_raise_def
  by (auto split: if_splits sum.splits simp: and_then_ok)

lemma validate_or_raise_checks:
  assumes "strip sql \<noteq> []" "parse_one lib sql = Inr statement" "parse lib sql = Inr parsed"
    "length parsed \<le> 1"
  shows "validate_or_raise self lib sql =
           and_then (check_statement_type self statement sql)
             (and_then (check_blocked_functions self statement)
                (and_then (check_blocked_tables self statement)
                   (check_blocked_columns self statement)))"
  using assms unfolding validate_or_raise_def by (auto simp: strip_def)

text \<open>
  C1. Whenever the library parses the input to a statement of kind \<open>INSERT\<close>,
  \<open>UPDATE\<close>, \<open>DELETE\<close>, \<open>CREATE\<close>, \<open>DROP\<close>, \<open>ALTER\<close>, \<open>GRANT\<close>, \<open>REVOKE\<close>, \<open>TRUNCATE\<close>,
  \<open>VACUUM\<close> or \<open>COPY\<close>, \<open>validate_or_raise\<close> does not accept it and \<open>validate\<close> does not
  return \<open>is_valid = True\<close>; and the exception raised is a \<open>SecurityViolationError\<close>
  (\<open>validate\<close> returning \<open>(False, message)\<close>) on every text that is not blank and on
  which the second call of the parser, \<open>sqlglot.parse\<close>, returns too. The first eight
  kinds are rejected by the explicit list \<open>forbidden_types\<close>, \<open>TRUNCATE\<close> and \<open>COPY\<close>
  because their class is not an allowed one, \<open>VACUUM\<close> as a command other than
  \<open>EXPLAIN\<close>.
\<close>

theorem forbidden_statement_rejected:
  assumes "parse_one lib sql = Inr statement" and "forbidden_kind statement"
  shows "validate_or_raise self lib sql \<noteq> Inr ()
         \<and> validate self lib sql \<noteq> Inr (True, None)
         \<and> (strip sql \<noteq> [] \<and> (\<exists>parsed. parse lib sql = Inr parsed) \<longrightarrow>
              (\<exists>m. validate_or_raise self lib sql = Inl (SecurityViolationError m)
                   \<and> validate self lib sql = Inr (False, Some m)))"
proof -
  obtain m where m: "check_statement_type self statement sql = Inl (SecurityViolationError m)"
    using forbidden_kind_rejected [OF assms(2)] by blast
  have no: "validate_or_raise self lib sql \<noteq> Inr ()"
  proof
    assume "validate_or_raise self lib sql = Inr ()"
    from validate_or_raise_ok [OF this] assms(1) m show False by auto
  qed
  have v: "validate self lib sql \<noteq> Inr (True, None)"
    using no unfolding validate_def
    by (auto split: sum.splits py_exc.splits)
  have "\<exists>m. validate_or_raise self lib sql = Inl (SecurityViolationError m)
            \<and> validate self lib sql = Inr (False, Some m)"
    if nb: "strip sql \<noteq> []" and p: "parse lib sql = Inr parsed" for parsed
  proof (cases "length parsed > 1")
    case True
    with nb p assms(1) have "validate_or_raise self lib sql =
        Inl (SecurityViolationError ''Multiple SQL statements are not allowed'')"
      unfolding validate_or_raise_def by (auto simp: strip_def)
    then show ?thesis by (simp add: validate_def)
  next
    case False
    then have "length parsed \<le> 1" by simp
    from validate_or_raise_checks [OF nb assms(1) p this, of self] m
    have "validate_or_raise self lib sql = Inl (SecurityViolationError m)"
      by (simp add: and_then_simps)
    then show ?thesis by (simp add: validate_def)
  qed
  with no v show ?thesis by blast
qed

theorem forbidden_statement_rejected_witness:
  "parse_one sample_lib ''DELETE FROM users''
     = Inr (Node exp_Delete ''users'' [] [] [table_ref ''users''])
   \<and> forbidden_kind (Node exp_Delete ''users'' [] [] [table_ref ''users''])
   \<and> strip ''DELETE FROM users'' \<noteq> []
   \<and> (\<exists>parsed. parse sample_lib ''DELETE FROM users'' = Inr parsed)
   \<and> validate_or_raise (sample_validator DISABLED) sample_lib ''DELETE FROM users'' \<noteq> Inr ()
   \<and> (\<exists>m. validate_or_raise (sample_validator DISABLED) sample_lib ''DELETE FROM users''
             = Inl (SecurityViolationError m)
          \<and> validate (sample_validator DISABLED) sample_lib ''DELETE FROM users''
             = Inr (False, Some m))"
proof -
  have p: "parse_one sample_lib ''DELETE FROM users''
             = Inr (Node exp_Delete ''users'' [] [] [table_ref ''users''])"
    by (simp add: sample_lib_def sample_parse_one_def sample_parse_def)
  have f: "forbidden_kind (Node exp_Delete ''users'' [] [] [table_ref ''users''])"
    by (simp add: forbidden_kind_def named_forbidden_classes_def)
  have s: "strip ''DELETE FROM users'' \<noteq> []"
    by (simp add: strip_def isspace_def py_whitespace_def)
  have q: "\<exists>parsed. parse sample_lib ''DELETE FROM users'' = Inr parsed"
    by (simp add: sample_lib_def sample_parse_def)
  from forbidden_statement_rejected [OF p f, of "sample_validator DISABLED"] p f s q
  show ?thesis by blast
qed

lemma blocked_columns_loop_ok:
  "(blocked_columns_loop self cs = Inr ()) = (\<not> list_ex (column_blocked self) cs)"
  by (induction cs) (auto simp: column_blocked_def)

lemma check_blocked_columns_ok:
  "(check_blocked_columns self statement = Inr ())
     = (\<not> list_ex (column_blocked self) (find_all exp_Column statement))"
  by (auto simp: check_blocked_columns_def blocked_columns_loop_ok list_ex_iff column_blocked_def)

lemma blocked_tables_loop_ok:
  "(blocked_tables_loop self ts = Inr ())
     = (\<not> list_ex (\<lambda>t. lower (name t) \<in> blocked_tables self) ts)"
  by (induction ts) auto

lemma check_blocked_tables_ok:
  "(check_blocked_tables self statement = Inr ())
     = (\<not> list_ex (\<lambda>t. lower (name t) \<in> blocked_tables self) (find_all exp_Table statement))"
  by (auto simp: check_blocked_tables_def blocked_tables_loop_ok list_ex_iff)

lemma blocked_functions_loop_ok:
  "(blocked_functions_loop self ns = Inr ())
     = (\<not> list_ex (\<lambda>n. is_Func (cls n) \<and> lower (name n) \<in> blocked_functions self) ns)"
  by (induction ns) auto

lemma check_blocked_functions_ok:
  "(check_blocked_functions self statement = Inr ())
     = (\<not> list_ex (\<lambda>n. is_Func (cls n) \<and> lower (name n) \<in> blocked_functions self)
            (walk statement))"
  by (simp add: check_blocked_functions_def blocked_functions_loop_ok)

text \<open>
  C6, as the code has it. The column check passes exactly when no column node of the
  parsed tree has its lower-cased bare name, or its lower-cased \<open>table.column\<close> form, in
  the validator's \<open>blocked_columns\<close> set; and a statement whose tree has such a node is
  never accepted by \<open>validate_or_raise\<close>. The column references of the query inside an
  \<open>EXPLAIN\<close> are no nodes of the tree.
\<close>

theorem blocked_column_check:
  "((check_blocked_columns self statement = Inr ())
      = (\<forall>c \<in> set (find_all exp_Column statement). \<not> column_blocked self c))
   \<and> (parse_one lib sql = Inr statement
        \<and> (\<exists>c \<in> set (find_all exp_Column statement). column_blocked self c)
      \<longrightarrow> validate_or_raise self lib sql \<noteq> Inr ())"
proof -
  have a: "(check_blocked_columns self statement = Inr ())
      = (\<forall>c \<in> set (find_all exp_Column statement). \<not> column_blocked self c)"
    by (simp add: check_blocked_columns_ok list_ex_iff)
  have b: "validate_or_raise self lib sql \<noteq> Inr ()"
    if p: "parse_one lib sql = Inr statement"
      and c: "\<exists>c \<in> set (find_all exp_Column statement). column_blocked self c"
  proof
    assume "validate_or_raise self lib sql = Inr ()"
    from validate_or_raise_ok [OF this] p
    have "check_blocked_columns self statement = Inr ()" by auto
    with a c show False by blast
  qed
  from a b show ?thesis by blast
qed

theorem blocked_column_check_witness:
  "parse_one sample_lib ''SELECT users.Email FROM users''
     = Inr (Node exp_Select [] [] [] [column_ref ''users'' ''Email'', from_clause ''users''])
   \<and> column_ref ''users'' ''Email''
       \<in> set (find_all exp_Column
                (Node exp_Select [] [] [] [column_ref ''users'' ''Email'', from_clause ''users'']))
   \<and> column_blocked column_validator (column_ref ''users'' ''Email'')
   \<and> validate_or_raise column_validator sample_lib ''SELECT users.Email FROM users'' \<noteq> Inr ()
   \<and> check_blocked_columns column_validator select_one = Inr ()"
proof -
  let ?st = "Node exp_Select [] [] [] [column_ref ''users'' ''Email'', from_clause ''users'']"
  have p: "parse_one sample_lib ''SELECT users.Email FROM users'' = Inr ?st"
    by (simp add: sample_lib_def sample_parse_one_def sample_parse_def)
  have m: "column_ref ''users'' ''Email'' \<in> set (find_all exp_Column ?st)"
    by (simp add: find_all_def walk_def column_ref_def from_clause_def table_ref_def ident_def)
  have c: "column_blocked column_validator (column_ref ''users'' ''Email'')"
    by (simp add: column_blocked_def column_validator_def init_def or_empty_def
        column_ref_def qualified_name_def case_defs)
  have n: "\<forall>c \<in> set (find_all exp_Column select_one). \<not> column_blocked column_validator c"
    by (simp add: find_all_def walk_def select_one_def literal_def)
  from blocked_column_check [of column_validator ?st sample_lib "''SELECT users.Email FROM users''"]
    blocked_column_check [of column_validator select_one sample_lib "[]"] p m c n
  show ?thesis by blast
qed

lemma lower_char_pair:
  assumes "(u, l) \<in> set (zip ascii_uppercase ascii_lowercase)"
  shows "lower_char u = l \<and> lower_char l = l"
proof -
  from assms have "(u, l) \<in> {(CHR ''A'', CHR ''a''), (CHR ''B'', CHR ''b''), (CHR ''C'', CHR ''c''),
      (CHR ''D'', CHR ''d''), (CHR ''E'', CHR ''e''), (CHR ''F'', CHR ''f''), (CHR ''G'', CHR ''g''),
      (CHR ''H'', CHR ''h''), (CHR ''I'', CHR ''i''), (CHR ''J'', CHR ''j''), (CHR ''K'', CHR ''k''),
      (CHR ''L'', CHR ''l''), (CHR ''M'', CHR ''m''), (CHR ''N'', CHR ''n''), (CHR ''O'', CHR ''o''),
      (CHR ''P'', CHR ''p''), (CHR ''Q'', CHR ''q''), (CHR ''R'', CHR ''r''), (CHR ''S'', CHR ''s''),
      (CHR ''T'', CHR ''t''), (CHR ''U'', CHR ''u''), (CHR ''V'', CHR ''v''), (CHR ''W'', CHR ''w''),
      (CHR ''X'', CHR ''x''), (CHR ''Y'', CHR ''y''), (CHR ''Z'', CHR ''z'')}"
    by (simp add: ascii_uppercase_def ascii_lowercase_def)
  then show ?thesis
    by (elim insertE emptyE)
       (simp_all add: lower_char_def ascii_uppercase_def ascii_lowercase_def
          latin1_uppercase_def latin1_lowercase_def)
qed

lemma same_letter_lower: "same_letter a b \<Longrightarrow> lower_char a = lower_char b"
  unfolding same_letter_def using lower_char_pair by metis

lemma eq_ignore_case_lower: "eq_ignore_case s t \<Longrightarrow> lower s = lower t"
  unfolding eq_ignore_case_def lower_def
  by (induction s t rule: list_all2_induct) (auto dest: same_letter_lower)

lemma lower_qualified: "lower (t @ CHR ''.'' # c) = lower t @ CHR ''.'' # lower c"
  by (simp add: case_defs)

lemma function_node_match_rejected:
  assumes "function_node_match cfg statement"
  shows "check_blocked_functions (init cfg tables columns policy) statement \<noteq> Inr ()"
proof -
  from assms obtain n e where n: "n \<in> set (walk statement)" "is_Func (cls n)"
    and e: "e \<in> set (config_blocked_functions cfg)" "eq_ignore_case e (name n)"
    by (auto simp: function_node_match_def list_ex_iff)
  from e(1) have "lower e \<in> blocked_functions (init cfg tables columns policy)"
    by (simp add: init_def)
  with eq_ignore_case_lower [OF e(2)]
  have "lower (name n) \<in> blocked_functions (init cfg tables columns policy)" by simp
  with n show ?thesis
    by (auto simp: check_blocked_functions_ok list_ex_iff)
qed

lemma table_node_match_rejected:
  assumes "table_node_match tables statement"
  shows "check_blocked_tables (init cfg tables columns policy) statement \<noteq> Inr ()"
proof -
  from assms obtain t e where t: "t \<in> set (find_all exp_Table statement)"
    and e: "e \<in> set (or_empty tables)" "eq_ignore_case e (name t)"
    by (auto simp: table_node_match_def list_ex_iff)
  from e(1) have "lower e \<in> blocked_tables (init cfg tables columns policy)"
    by (simp add: init_def)
  with eq_ignore_case_lower [OF e(2)]
  have "lower (name t) \<in> blocked_tables (init cfg tables columns policy)" by simp
  with t show ?thesis
    by (auto simp: check_blocked_tables_ok list_ex_iff)
qed

lemma column_node_match_rejected:
  assumes "column_node_match columns statement"
  shows "check_blocked_columns (init cfg tables columns policy) statement \<noteq> Inr ()"
proof -
  let ?self = "init cfg tables columns policy"
  from assms obtain c e where c: "c \<in> set (find_all exp_Column statement)"
    and e: "e \<in> set (or_empty columns)"
    and m: "eq_ignore_case e (name c)
            \<or> (table c \<noteq> [] \<and> eq_ignore_case e (table c @ ''.'' @ name c))"
    by (auto simp: column_node_match_def list_ex_iff)
  from e have le: "lower e \<in> blocked_columns ?self" by (simp add: init_def)
  from m have "column_blocked ?self c"
  proof
    assume "eq_ignore_case e (name c)"
    from eq_ignore_case_lower [OF this] le show ?thesis
      by (simp add: column_blocked_def)
  next
    assume q: "table c \<noteq> [] \<and> eq_ignore_case e (table c @ ''.'' @ name c)"
    then have "lower e = qualified_name c"
      using eq_ignore_case_lower [of e "table c @ ''.'' @ name c"]
      by (simp add: qualified_name_def lower_qualified)
    with le q show ?thesis by (simp add: column_blocked_def)
  qed
  with c show ?thesis by (auto simp: check_blocked_columns_ok list_ex_iff)
qed

text \<open>
  C4, as the code has it. The deny-list comparisons are case-insensitive: whatever the
  case of the configured entries and of the SQL, a statement whose parsed tree has a
  function node, table node or column node whose name, as the library reports it, matches
  a configured blocked function, table or column entry up to ASCII case is rejected by
  \<open>validate_or_raise\<close>. The query inside an \<open>EXPLAIN\<close> contributes no such node.
\<close>

theorem deny_lists_case_insensitive:
  assumes "parse_one lib sql = Inr statement"
    and "function_node_match cfg statement \<or> table_node_match tables statement
         \<or> column_node_match columns statement"
  shows "validate_or_raise (init cfg tables columns policy) lib sql \<noteq> Inr ()"
proof
  assume "validate_or_raise (init cfg tables columns policy) lib sql = Inr ()"
  from validate_or_raise_ok [OF this] assms(1)
  have "check_blocked_functions (init cfg tables columns policy) statement = Inr ()"
    "check_blocked_tables (init cfg tables columns policy) statement = Inr ()"
    "check_blocked_columns (init cfg tables columns policy) statement = Inr ()"
    by auto
  with assms(2) function_node_match_rejected table_node_match_rejected column_node_match_rejected
  show False by blast
qed

theorem deny_lists_case_insensitive_witness:
  "parse_one sample_lib ''SELECT PG_SLEEP(5)''
     = Inr (Node exp_Select [] [] []
              [Node (exp_Func ''anonymous'') ''PG_SLEEP'' ''PG_SLEEP'' [] [literal ''5'']])
   \<and> function_node_match sample_config
        (Node exp_Select [] [] []
              [Node (exp_Func ''anonymous'') ''PG_SLEEP'' ''PG_SLEEP'' [] [literal ''5'']])
   \<and> validate_or_raise (init sample_config None None DISABLED) sample_lib
        ''SELECT PG_SLEEP(5)'' \<noteq> Inr ()"
proof -
  let ?st = "Node exp_Select [] [] []
              [Node (exp_Func ''anonymous'') ''PG_SLEEP'' ''PG_SLEEP'' [] [literal ''5'']]"
  have p: "parse_one sample_lib ''SELECT PG_SLEEP(5)'' = Inr ?st"
    by (simp add: sample_lib_def sample_parse_one_def sample_parse_def)
  have f: "function_node_match sample_config ?st"
    by (simp add: function_node_match_def walk_def literal_def sample_config_def
        eq_ignore_case_def same_letter_def ascii_uppercase_def ascii_lowercase_def)
  from deny_lists_case_insensitive [OF p, of sample_config None None DISABLED] p f
  show ?thesis by blast
qed

lemma opaque_checks:
  assumes "opaque statement"
  shows "check_blocked_functions self statement = Inr ()"
    and "check_blocked_tables self statement = Inr ()"
    and "check_blocked_columns self statement = Inr ()"
  using assms
  by (auto simp: opaque_def check_blocked_functions_ok check_blocked_tables_ok
      check_blocked_columns_ok list_ex_iff list_all_iff find_all_def)

lemma explain_statement_type:
  assumes "is_explain statement"
  shows "check_statement_type self statement sql =
     (if explain_policy self = DISABLED
      then Inl (SecurityViolationError ''EXPLAIN statements are not allowed'')
      else if explain_policy self = EXPLAIN_ONLY \<and> py_in ''ANALYZE'' (upper sql)
      then Inl (SecurityViolationError ''EXPLAIN ANALYZE is not allowed'')
      else Inr ())"
  using assms by (simp add: is_explain_def check_statement_type_def cmd_name_upper)

lemma explain_accepted:
  assumes "strip sql \<noteq> []" "parse_one lib sql = Inr statement" "parse lib sql = Inr parsed"
    "length parsed \<le> 1" "is_explain statement" "opaque statement"
    "explain_permitted self sql"
  shows "validate_or_raise self lib sql = Inr ()"
proof -
  from assms(7) have "check_statement_type self statement sql = Inr ()"
    by (auto simp: explain_statement_type [OF assms(5)] explain_permitted_def)
  with opaque_checks [OF assms(6), of self]
    validate_or_raise_checks [OF assms(1-4), of self]
  show ?thesis by (simp add: and_then_simps)
qed

text \<open>
  The claim as stated fails: \<open>EXPLAIN SELECT password FROM users\<close> refers to the
  column \<open>password\<close>, which is blocked, and under \<open>EXPLAIN_ONLY\<close> it passes the column
  check and is accepted, since the command node of an \<open>EXPLAIN\<close> has no column node.
\<close>

theorem explain_hides_blocked_column:
  "''password'' \<in> set (sql_words ''EXPLAIN SELECT password FROM users'')
   \<and> lower ''password'' \<in> blocked_columns explain_column_validator
   \<and> parse_one sample_lib ''EXPLAIN SELECT password FROM users''
       = Inr (command ''EXPLAIN'' ''SELECT password FROM users'')
   \<and> check_blocked_columns explain_column_validator
         (command ''EXPLAIN'' ''SELECT password FROM users'') = Inr ()
   \<and> validate_or_raise explain_column_validator sample_lib
         ''EXPLAIN SELECT password FROM users'' = Inr ()"
proof -
  let ?sql = "''EXPLAIN SELECT password FROM users''"
  let ?st = "command ''EXPLAIN'' ''SELECT password FROM users''"
  have w: "''password'' \<in> set (sql_words ?sql)"
    by (simp add: sql_words_def word_char_def ascii_uppercase_def ascii_lowercase_def)
  have b: "lower ''password'' \<in> blocked_columns explain_column_validator"
    by (simp add: explain_column_validator_def init_def or_empty_def case_defs)
  have s: "strip ?sql \<noteq> []"
    by (simp add: strip_def isspace_def py_whitespace_def)
  have p1: "parse_one sample_lib ?sql = Inr ?st"
    by (simp add: sample_lib_def sample_parse_one_def sample_parse_def)
  have p: "parse sample_lib ?sql = Inr [Some ?st]"
    by (simp add: sample_lib_def sample_parse_def)
  have l: "length [Some ?st] \<le> 1" by simp
  have e: "is_explain ?st"
    by (simp add: is_explain_def command_def case_defs)
  have o: "opaque ?st"
    by (simp add: opaque_def walk_def command_def literal_def)
  have u: "upper ?sql = ''EXPLAIN SELECT PASSWORD FROM USERS''"
    by (simp add: case_defs)
  have x: "explain_permitted explain_column_validator ?sql"
    unfolding explain_permitted_def u
    by (simp add: explain_column_validator_def init_def)
  have c: "check_blocked_columns explain_column_validator ?st = Inr ()"
    using opaque_checks(3) [OF o] .
  have "validate_or_raise explain_column_validator sample_lib ?sql = Inr ()"
    using explain_accepted [OF s p1 p l e o x] .
  with w b p1 c show ?thesis by blast
qed

text \<open>
  The claim C4 as stated fails in the same way: \<open>EXPLAIN SELECT PG_SLEEP(5)\<close> calls
  \<open>PG_SLEEP\<close>, which matches the configured blocked function \<open>pg_sleep\<close> up to case, and
  under \<open>EXPLAIN_ONLY\<close> it is accepted.
\<close>

theorem explain_hides_blocked_function:
  "''pg_sleep'' \<in> set (config_blocked_functions sample_config)
   \<and> eq_ignore_case ''pg_sleep'' ''PG_SLEEP''
   \<and> ''PG_SLEEP'' \<in> set (sql_words ''EXPLAIN SELECT PG_SLEEP(5)'')
   \<and> parse_one sample_lib ''EXPLAIN SELECT PG_SLEEP(5)''
       = Inr (command ''EXPLAIN'' ''SELECT PG_SLEEP(5)'')
   \<and> validate_or_raise (init sample_config None None EXPLAIN_ONLY) sample_lib
         ''EXPLAIN SELECT PG_SLEEP(5)'' = Inr ()"
proof -
  let ?sql = "''EXPLAIN SELECT PG_SLEEP(5)''"
  let ?st = "command ''EXPLAIN'' ''SELECT PG_SLEEP(5)''"
  have c: "''pg_sleep'' \<in> set (config_blocked_functions sample_config)"
    by (simp add: sample_config_def)
  have m: "eq_ignore_case ''pg_sleep'' ''PG_SLEEP''"
    by (simp add: eq_ignore_case_def same_letter_def ascii_uppercase_def ascii_lowercase_def)
  have w: "''PG_SLEEP'' \<in> set (sql_words ?sql)"
    by (simp add: sql_words_def word_char_def ascii_uppercase_def ascii_lowercase_def)
  have s: "strip ?sql \<noteq> []"
    by (simp add: strip_def isspace_def py_whitespace_def)
  have p1: "parse_one sample_lib ?sql = Inr ?st"
    by (simp add: sample_lib_def sample_parse_one_def sample_parse_def)
  have p: "parse sample_lib ?sql = Inr [Some ?st]"
    by (simp add: sample_lib_def sample_parse_def)
  have l: "length [Some ?st] \<le> 1" by simp
  have e: "is_explain ?st"
    by (simp add: is_explain_def command_def case_defs)
  have o: "opaque ?st"
    by (simp add: opaque_def walk_def command_def literal_def)
  have u: "upper ?sql = ''EXPLAIN SELECT PG_SLEEP(5)''"
    by (simp add: case_defs)
  have x: "explain_permitted (init sample_config None None EXPLAIN_ONLY) ?sql"
    unfolding explain_permitted_def u by (simp add: init_def)
  have "validate_or_raise (init sample_config None None EXPLAIN_ONLY) sample_lib ?sql = Inr ()"
    using explain_accepted [OF s p1 p l e o x] .
  with c m w p1 show ?thesis by blast
qed

text \<open>
  C10. An \<open>EXPLAIN\<close> the policy permits is accepted whatever the query inside it is:
  the library returns an opaque command node for it, the statement-kind check returns
  early, the walks find no function, table or column node, and so the deny-lists and
  the forbidden statement kinds are never applied to the inner query. The witness is
  \<open>EXPLAIN DELETE FROM users\<close> with \<open>users\<close> a blocked table, which is accepted.
\<close>

theorem explain_inner_query_unchecked:
  assumes "strip sql \<noteq> []" and "parse_one lib sql = Inr statement"
    and "parse lib sql = Inr parsed" and "length parsed \<le> 1"
    and "is_explain statement" and "opaque statement"
    and "explain_permitted self sql"
  shows "check_statement_type self statement sql = Inr ()
         \<and> find_all exp_Table statement = [] \<and> find_all exp_Column statement = []
         \<and> filter (\<lambda>n. is_Func (cls n)) (walk statement) = []
         \<and> validate_or_raise self lib sql = Inr ()"
proof -
  from assms(7) have "check_statement_type self statement sql = Inr ()"
    by (auto simp: explain_statement_type [OF assms(5)] explain_permitted_def)
  moreover from assms(6) have "find_all exp_Table statement = []"
    "find_all exp_Column statement = []" "filter (\<lambda>n. is_Func (cls n)) (walk statement) = []"
    by (auto simp: opaque_def find_all_def list_all_iff filter_empty_conv)
  ultimately show ?thesis using explain_accepted [OF assms] by simp
qed

lemma upper_explain_delete:
  "upper ''EXPLAIN DELETE FROM users'' = ''EXPLAIN DELETE FROM USERS''"
  by (simp add: case_defs)

theorem explain_inner_query_unchecked_witness:
  "strip ''EXPLAIN DELETE FROM users'' \<noteq> []
   \<and> parse_one sample_lib ''EXPLAIN DELETE FROM users''
       = Inr (command ''EXPLAIN'' ''DELETE FROM users'')
   \<and> parse sample_lib ''EXPLAIN DELETE FROM users''
       = Inr [Some (command ''EXPLAIN'' ''DELETE FROM users'')]
   \<and> is_explain (command ''EXPLAIN'' ''DELETE FROM users'')
   \<and> opaque (command ''EXPLAIN'' ''DELETE FROM users'')
   \<and> explain_permitted (sample_validator EXPLAIN_ONLY) ''EXPLAIN DELETE FROM users''
   \<and> ''users'' \<in> blocked_tables (sample_validator EXPLAIN_ONLY)
   \<and> validate_or_raise (sample_validator EXPLAIN_ONLY) sample_lib
        ''EXPLAIN DELETE FROM users'' = Inr ()"
proof -
  let ?sql = "''EXPLAIN DELETE FROM users''"
  let ?st = "command ''EXPLAIN'' ''DELETE FROM users''"
  have s: "strip ?sql \<noteq> []"
    by (simp add: strip_def isspace_def py_whitespace_def)
  have p1: "parse_one sample_lib ?sql = Inr ?st"
    by (simp add: sample_lib_def sample_parse_one_def sample_parse_def)
  have p: "parse sample_lib ?sql = Inr [Some ?st]"
    by (simp add: sample_lib_def sample_parse_def)
  have l: "length [Some ?st] \<le> 1" by simp
  have e: "is_explain ?st"
    by (simp add: is_explain_def command_def case_defs)
  have o: "opaque ?st"
    by (simp add: opaque_def walk_def command_def literal_def)
  have x: "explain_permitted (sample_validator EXPLAIN_ONLY) ?sql"
    unfolding explain_permitted_def upper_explain_delete
    by (simp add: sample_validator_def init_def)
  have b: "''users'' \<in> blocked_tables (sample_validator EXPLAIN_ONLY)"
    by (simp add: sample_validator_def init_def or_empty_def case_defs)
  from explain_inner_query_unchecked [OF s p1 p l e o x] s p1 p e o x b
  show ?thesis by simp
qed

lemma startswith_iff: "startswith s p = (\<exists>b. s = p @ b)"
  by (induction s p rule: startswith.induct) auto

lemma py_in_prefix: "py_in p (p @ b)"
proof (cases "p @ b")
  case Nil
  then show ?thesis by simp
next
  case (Cons c cs)
  have "startswith (p @ b) p" by (simp add: startswith_iff)
  with Cons show ?thesis by simp
qed

lemma py_in_substring: "py_in p (a @ p @ b)"
  by (induction a) (auto simp: py_in_prefix)

lemma words_from_substring:
  "w \<in> set (words_from cur s) \<Longrightarrow> \<exists>a b. cur @ s = a @ w @ b"
proof (induction s arbitrary: cur)
  case Nil
  then have "w = cur" by (auto split: if_splits)
  then have "cur @ [] = [] @ w @ []" by simp
  then show ?case by blast
next
  case (Cons c cs)
  show ?case
  proof (cases "word_char c")
    case True
    with Cons.prems have "w \<in> set (words_from (cur @ [c]) cs)" by simp
    from Cons.IH [OF this] show ?thesis by simp
  next
    case False
    with Cons.prems consider "w = cur" | "w \<in> set (words_from [] cs)"
      by (auto split: if_splits)
    then show ?thesis
    proof cases
      case 1
      then have "cur @ c # cs = [] @ w @ (c # cs)" by simp
      then show ?thesis by blast
    next
      case 2
      from Cons.IH [OF this] obtain a b where "cs = a @ w @ b" by auto
      then have "cur @ c # cs = (cur @ c # a) @ w @ b" by simp
      then show ?thesis by blast
    qed
  qed
qed

lemma word_in_text: "w \<in> set (sql_words t) \<Longrightarrow> py_in w t"
  unfolding sql_words_def
  using words_from_substring [of w "[]" t] py_in_substring
  by (metis append_Nil)

text \<open>
  C2, as the code has it. For a statement the library parses to an \<open>EXPLAIN\<close> command:
  under \<open>DISABLED\<close> it is rejected; under \<open>EXPLAIN_ONLY\<close> it is rejected whenever the
  upper-cased raw text contains \<open>ANALYZE\<close> anywhere, so whenever the option is written
  \<open>ANALYZE\<close> and also when the letters merely occur in the text, and it is accepted when
  the text contains neither \<open>ANALYZE\<close> nor \<open>ANALYSE\<close>; under \<open>EXPLAIN_ANALYZE\<close> it is
  accepted. Accepted means: for a non-blank text that the parser reads as one statement,
  whose command node is opaque. Nothing is stated here about a text under
  \<open>EXPLAIN_ONLY\<close> that contains \<open>ANALYSE\<close> and not \<open>ANALYZE\<close>.
\<close>

theorem explain_policy_verdict:
  assumes "parse_one lib sql = Inr statement" and "is_explain statement"
  shows "(explain_policy self = DISABLED \<longrightarrow> validate_or_raise self lib sql \<noteq> Inr ())
       \<and> (explain_policy self = EXPLAIN_ONLY
            \<and> (py_in ''ANALYZE'' (upper sql) \<or> ''ANALYZE'' \<in> set (sql_words (upper sql)))
          \<longrightarrow> validate_or_raise self lib sql \<noteq> Inr ())
       \<and> ((explain_policy self = EXPLAIN_ANALYZE
             \<or> (explain_policy self = EXPLAIN_ONLY \<and> no_analyze_text sql))
            \<and> strip sql \<noteq> []
            \<and> (\<exists>parsed. parse lib sql = Inr parsed \<and> length parsed \<le> 1)
            \<and> opaque statement
          \<longrightarrow> validate_or_raise self lib sql = Inr ())"
proof -
  have rej: "validate_or_raise self lib sql \<noteq> Inr ()"
    if "check_statement_type self statement sql \<noteq> Inr ()"
  proof
    assume "validate_or_raise self lib sql = Inr ()"
    from validate_or_raise_ok [OF this] assms(1) that show False by auto
  qed
  have a: "validate_or_raise self lib sql \<noteq> Inr ()" if "explain_policy self = DISABLED"
    using that by (intro rej) (simp add: explain_statement_type [OF assms(2)])
  have b: "validate_or_raise self lib sql \<noteq> Inr ()"
    if "explain_policy self = EXPLAIN_ONLY"
      and "py_in ''ANALYZE'' (upper sql) \<or> ''ANALYZE'' \<in> set (sql_words (upper sql))"
  proof -
    from that(2) have "py_in ''ANALYZE'' (upper sql)"
      using word_in_text by blast
    with that(1) show ?thesis
      by (intro rej) (simp add: explain_statement_type [OF assms(2)])
  qed
  have c: "validate_or_raise self lib sql = Inr ()"
    if "explain_policy self = EXPLAIN_ANALYZE
          \<or> (explain_policy self = EXPLAIN_ONLY \<and> no_analyze_text sql)"
      "strip sql \<noteq> []"
      "\<exists>parsed. parse lib sql = Inr parsed \<and> length parsed \<le> 1" "opaque statement"
  proof -
    from that(1) have x: "explain_permitted self sql"
      by (auto simp: explain_permitted_def no_analyze_text_def)
    from that(3) obtain parsed where "parse lib sql = Inr parsed" "length parsed \<le> 1"
      by blast
    from explain_accepted [OF that(2) assms(1) this assms(2) that(4) x]
    show ?thesis .
  qed
  from a b c show ?thesis by blast
qed

lemma upper_explain_analyzed:
  "upper ''EXPLAIN SELECT analyzed FROM t'' = ''EXPLAIN SELECT ANALYZED FROM T''"
  by (simp add: case_defs)

lemma upper_explain_analyze:
  "upper ''EXPLAIN ANALYZE SELECT 1'' = ''EXPLAIN ANALYZE SELECT 1''"
  by (simp add: case_defs)

theorem explain_policy_verdict_witness:
  "parse_one sample_lib ''EXPLAIN DELETE FROM users''
       = Inr (command ''EXPLAIN'' ''DELETE FROM users'')
   \<and> is_explain (command ''EXPLAIN'' ''DELETE FROM users'')
   \<and> validate_or_raise (open_validator DISABLED) sample_lib ''EXPLAIN DELETE FROM users''
       \<noteq> Inr ()
   \<and> no_analyze_text ''EXPLAIN DELETE FROM users''
   \<and> validate_or_raise (open_validator EXPLAIN_ONLY) sample_lib ''EXPLAIN DELETE FROM users''
       = Inr ()
   \<and> parse_one sample_lib ''EXPLAIN ANALYZE SELECT 1''
       = Inr (command ''EXPLAIN'' ''ANALYZE SELECT 1'')
   \<and> ''ANALYZE'' \<in> set (sql_words (upper ''EXPLAIN ANALYZE SELECT 1''))
   \<and> validate_or_raise (open_validator EXPLAIN_ONLY) sample_lib ''EXPLAIN ANALYZE SELECT 1''
       \<noteq> Inr ()
   \<and> validate_or_raise (open_validator EXPLAIN_ANALYZE) sample_lib ''EXPLAIN ANALYZE SELECT 1''
       = Inr ()"
proof -
  let ?sql = "''EXPLAIN DELETE FROM users''"
  let ?st = "command ''EXPLAIN'' ''DELETE FROM users''"
  let ?sql2 = "''EXPLAIN ANALYZE SELECT 1''"
  let ?st2 = "command ''EXPLAIN'' ''ANALYZE SELECT 1''"
  have s: "strip ?sql \<noteq> []" "strip ?sql2 \<noteq> []"
    by (simp_all add: strip_def isspace_def py_whitespace_def)
  have p1: "parse_one sample_lib ?sql = Inr ?st" "parse_one sample_lib ?sql2 = Inr ?st2"
    by (simp_all add: sample_lib_def sample_parse_one_def sample_parse_def)
  have p: "\<exists>parsed. parse sample_lib ?sql = Inr parsed \<and> length parsed \<le> 1"
    "\<exists>parsed. parse sample_lib ?sql2 = Inr parsed \<and> length parsed \<le> 1"
    by (simp_all add: sample_lib_def sample_parse_def)
  have e: "is_explain ?st" "is_explain ?st2"
    by (simp_all add: is_explain_def command_def case_defs)
  have o: "opaque ?st" "opaque ?st2"
    by (simp_all add: opaque_def walk_def command_def literal_def)
  have d: "explain_policy (open_validator DISABLED) = DISABLED"
    "explain_policy (open_validator EXPLAIN_ONLY) = EXPLAIN_ONLY"
    "explain_policy (open_validator EXPLAIN_ANALYZE) = EXPLAIN_ANALYZE"
    by (simp_all add: open_validator_def init_def)
  have x: "no_analyze_text ?sql"
    unfolding no_analyze_text_def upper_explain_delete by simp
  have w: "''ANALYZE'' \<in> set (sql_words (upper ?sql2))"
    unfolding upper_explain_analyze
    by (simp add: sql_words_def word_char_def ascii_uppercase_def ascii_lowercase_def)
  from explain_policy_verdict [OF p1(1) e(1), of "open_validator DISABLED"]
    explain_policy_verdict [OF p1(1) e(1), of "open_validator EXPLAIN_ONLY"]
    explain_policy_verdict [OF p1(2) e(2), of "open_validator EXPLAIN_ONLY"]
    explain_policy_verdict [OF p1(2) e(2), of "open_validator EXPLAIN_ANALYZE"]
    s p1 p e o d x w
  show ?thesis by blast
qed

text \<open>
  The claim as stated fails: under \<open>EXPLAIN_ONLY\<close> the plain
  \<open>EXPLAIN SELECT analyzed FROM t\<close>, which has no \<open>ANALYZE\<close> option (neither spelling
  of it is a word of the text), is rejected, because the column name contains the letters.
\<close>

theorem explain_only_rejects_plain_explain:
  "parse_one sample_lib ''EXPLAIN SELECT analyzed FROM t''
       = Inr (command ''EXPLAIN'' ''SELECT analyzed FROM t'')
   \<and> is_explain (command ''EXPLAIN'' ''SELECT analyzed FROM t'')
   \<and> explain_policy (open_validator EXPLAIN_ONLY) = EXPLAIN_ONLY
   \<and> \<not> analyze_option_word ''EXPLAIN SELECT analyzed FROM t''
   \<and> validate_or_raise (open_validator EXPLAIN_ONLY) sample_lib
        ''EXPLAIN SELECT analyzed FROM t''
       = Inl (SecurityViolationError ''EXPLAIN ANALYZE is not allowed'')"
proof -
  let ?sql = "''EXPLAIN SELECT analyzed FROM t''"
  let ?st = "command ''EXPLAIN'' ''SELECT analyzed FROM t''"
  have s: "strip ?sql \<noteq> []"
    by (simp add: strip_def isspace_def py_whitespace_def)
  have p1: "parse_one sample_lib ?sql = Inr ?st"
    by (simp add: sample_lib_def sample_parse_one_def sample_parse_def)
  have p: "parse sample_lib ?sql = Inr [Some ?st]"
    by (simp add: sample_lib_def sample_parse_def)
  have e: "is_explain ?st"
    by (simp add: is_explain_def command_def case_defs)
  have d: "explain_policy (open_validator EXPLAIN_ONLY) = EXPLAIN_ONLY"
    by (simp add: open_validator_def init_def)
  have w: "\<not> analyze_option_word ?sql"
    unfolding analyze_option_word_def upper_explain_analyzed
    by (simp add: sql_words_def word_char_def ascii_uppercase_def ascii_lowercase_def)
  have a: "py_in ''ANALYZE'' (upper ?sql)"
    unfolding upper_explain_analyzed by simp
  have "check_statement_type (open_validator EXPLAIN_ONLY) ?st ?sql
          = Inl (SecurityViolationError ''EXPLAIN ANALYZE is not allowed'')"
    using a d by (simp add: explain_statement_type [OF e])
  with validate_or_raise_checks [OF s p1 p, of "open_validator EXPLAIN_ONLY"]
  have "validate_or_raise (open_validator EXPLAIN_ONLY) sample_lib ?sql
          = Inl (SecurityViolationError ''EXPLAIN ANALYZE is not allowed'')"
    by (simp add: and_then_simps)
  with p1 e d w show ?thesis by blast
qed

lemma dropWhile_all: "(\<forall>x \<in> set (dropWhile P xs). P x) = (\<forall>x \<in> set xs. P x)"
  by (induction xs) auto

lemma strip_empty_iff: "(strip s = []) = list_all isspace s"
  by (simp add: strip_def dropWhile_eq_Nil_conv dropWhile_all list_all_iff)

text \<open>
  C3, as the code has it. \<open>validate_or_raise\<close> fails with \<open>SQL query is empty\<close> on every
  empty or whitespace-only input, and never accepts an input on which the parser yields
  more than one statement (raising \<open>Multiple SQL statements are not allowed\<close> when the
  text is not blank and \<open>parse_one\<close> returned). The raw text itself is not scanned for
  semicolons.
\<close>

theorem blank_or_multiple_rejected:
  "(list_all isspace sql \<longrightarrow>
      validate_or_raise self lib sql = Inl (SQLParseError ''SQL query is empty''))
   \<and> (parse lib sql = Inr parsed \<and> length parsed > 1 \<longrightarrow>
        validate_or_raise self lib sql \<noteq> Inr ())
   \<and> (parse lib sql = Inr parsed \<and> length parsed > 1 \<and> \<not> list_all isspace sql
        \<and> (\<exists>statement. parse_one lib sql = Inr statement) \<longrightarrow>
        validate_or_raise self lib sql
          = Inl (SecurityViolationError ''Multiple SQL statements are not allowed''))"
proof -
  have a: "validate_or_raise self lib sql = Inl (SQLParseError ''SQL query is empty'')"
    if "list_all isspace sql"
    using that by (simp add: validate_or_raise_def strip_empty_iff)
  have b: "validate_or_raise self lib sql \<noteq> Inr ()"
    if "parse lib sql = Inr parsed" "length parsed > 1"
  proof
    assume "validate_or_raise self lib sql = Inr ()"
    from validate_or_raise_ok [OF this] that show False by auto
  qed
  have c: "validate_or_raise self lib sql
          = Inl (SecurityViolationError ''Multiple SQL statements are not allowed'')"
    if "parse lib sql = Inr parsed" "length parsed > 1" "\<not> list_all isspace sql"
      "\<exists>statement. parse_one lib sql = Inr statement"
  proof -
    from that(3) have "strip sql \<noteq> []" "sql \<noteq> []"
      by (auto simp: strip_empty_iff)
    with that show ?thesis
      by (auto simp: validate_or_raise_def)
  qed
  from a b c show ?thesis by blast
qed

theorem blank_or_multiple_rejected_witness:
  "list_all isspace '' ''
   \<and> validate_or_raise (open_validator DISABLED) sample_lib '' ''
       = Inl (SQLParseError ''SQL query is empty'')
   \<and> parse sample_lib ''SELECT 1; SELECT 1'' = Inr [Some select_one, Some select_one]
   \<and> length [Some select_one, Some select_one] > 1
   \<and> \<not> list_all isspace ''SELECT 1; SELECT 1''
   \<and> (\<exists>statement. parse_one sample_lib ''SELECT 1; SELECT 1'' = Inr statement)
   \<and> validate_or_raise (open_validator DISABLED) sample_lib ''SELECT 1; SELECT 1''
       = Inl (SecurityViolationError ''Multiple SQL statements are not allowed'')"
proof -
  have b: "list_all isspace '' ''" by (simp add: isspace_def py_whitespace_def)
  have p: "parse sample_lib ''SELECT 1; SELECT 1'' = Inr [Some select_one, Some select_one]"
    by (simp add: sample_lib_def sample_parse_def)
  have l: "length [Some select_one, Some select_one] > 1" by simp
  have n: "\<not> list_all isspace ''SELECT 1; SELECT 1''"
    by (simp add: isspace_def py_whitespace_def)
  have p1: "\<exists>statement. parse_one sample_lib ''SELECT 1; SELECT 1'' = Inr statement"
    by (simp add: sample_lib_def sample_parse_one_def sample_parse_def)
  from blank_or_multiple_rejected [of "'' ''" "open_validator DISABLED" sample_lib "[]"]
    blank_or_multiple_rejected [of "''SELECT 1; SELECT 1''" "open_validator DISABLED"
      sample_lib "[Some select_one, Some select_one]"]
    b p l n p1
  show ?thesis by blast
qed

text \<open>
  The claim as stated fails: \<open>SELECT 1;\<close> has a semicolon outside string literals,
  the parser reads it as one statement, and it is accepted.
\<close>

theorem trailing_semicolon_accepted:
  "separator_outside_literals ''SELECT 1;''
   \<and> parse sample_lib ''SELECT 1;'' = Inr [Some select_one]
   \<and> validate_or_raise (open_validator DISABLED) sample_lib ''SELECT 1;'' = Inr ()"
proof -
  have s: "separator_outside_literals ''SELECT 1;''"
    by (simp add: separator_outside_literals_def)
  have p: "parse sample_lib ''SELECT 1;'' = Inr [Some select_one]"
    by (simp add: sample_lib_def sample_parse_def)
  have p1: "parse_one sample_lib ''SELECT 1;'' = Inr select_one"
    by (simp add: sample_lib_def sample_parse_one_def sample_parse_def)
  have n: "strip ''SELECT 1;'' \<noteq> []"
    by (simp add: strip_def isspace_def py_whitespace_def)
  have t: "check_statement_type (open_validator DISABLED) select_one ''SELECT 1;'' = Inr ()"
    by (simp add: check_statement_type_def select_one_def)
  have w: "walk select_one = [select_one, literal ''1'']"
    by (simp add: walk_def select_one_def literal_def)
  have f: "check_blocked_functions (open_validator DISABLED) select_one = Inr ()"
    by (simp add: check_blocked_functions_def w) (simp add: select_one_def literal_def)
  have tb: "check_blocked_tables (open_validator DISABLED) select_one = Inr ()"
    by (simp add: check_blocked_tables_def open_validator_def init_def or_empty_def)
  have c: "check_blocked_columns (open_validator DISABLED) select_one = Inr ()"
    by (simp add: check_blocked_columns_def open_validator_def init_def or_empty_def)
  from validate_or_raise_checks [OF n p1 p, of "open_validator DISABLED"] t f tb c
  have "validate_or_raise (open_validator DISABLED) sample_lib ''SELECT 1;'' = Inr ()"
    by (simp add: and_then_simps)
  with s p show ?thesis by blast
qed

section \<open>Facts about \<open>normalize_sql\<close> and \<open>extract_tables\<close>\<close>

text \<open>
  What \<open>extract_tables\<close> returns is sorted and free of duplicates, and is determined by
  the set of names of the table nodes; so it is the same for the canonical text as for the
  original one whenever parsing the canonical text yields a tree with the same table names,
  which is a property of the SQL library's parser and generator.
\<close>

lemma extract_tables_sorted:
  "extract_tables lib sql = Inr ts \<Longrightarrow> sorted ts \<and> distinct ts"
  by (auto simp: extract_tables_def split: sum.splits)

lemma extract_tables_set:
  "parse_one lib sql = Inr statement \<Longrightarrow>
     extract_tables lib sql
       = Inr (sorted_list_of_set (name ` set (find_all exp_Table statement)))"
  by (simp add: extract_tables_def sorted_list_of_set_sort_remdups [symmetric])

lemma extract_tables_normalize_sql:
  assumes "parse_one lib sql = Inr statement" and "normalize_sql lib sql = Inr text"
    and "parse_one lib text = Inr statement'"
    and "name ` set (find_all exp_Table statement') = name ` set (find_all exp_Table statement)"
  shows "extract_tables lib text = extract_tables lib sql"
  using assms by (simp add: extract_tables_set)

section \<open>Facts about the host tool\<close>

lemma error_response_fields:
  "success_of (error_response code message details) = Some (PyBool False)"
  "error_field (error_response code message details) ''code'' = Some (PyStr code)"
  "error_field (error_response code message details) ''message'' = Some (PyStr message)"
  "error_field (error_response code message details) ''details'' = Some details"
  by (simp_all add: success_of_def error_field_def error_response_def)

text \<open>
  C7. Called before the orchestrator is initialised, \<open>query\<close> returns a response with
  \<open>success = False\<close> and \<open>error.code = SERVER_NOT_INITIALIZED\<close>; called on an
  initialised server with a \<open>return_type\<close> other than \<open>sql\<close> and \<open>result\<close>, it
  returns \<open>success = False\<close> and \<open>error.code = INVALID_PARAMETER\<close>; in both cases
  nothing is passed to the orchestrator. The two tests run in this order, so the second
  answer is the one of an initialised server.
\<close>

theorem query_guards:
  "(\<exists>d. query h None question database return_type = (Inr d, [])
        \<and> success_of d = Some (PyBool False)
        \<and> error_field d ''code'' = Some (PyStr ''SERVER_NOT_INITIALIZED''))
   \<and> (return_type \<noteq> ''sql'' \<and> return_type \<noteq> ''result'' \<longrightarrow>
        (\<exists>d. query h (Some execute_query) question database return_type = (Inr d, [])
           \<and> success_of d = Some (PyBool False)
           \<and> error_field d ''code'' = Some (PyStr ''INVALID_PARAMETER'')))"
  by (simp add: query_def error_response_fields)

theorem query_guards_witness:
  "''xml'' \<noteq> ''sql'' \<and> ''xml'' \<noteq> ''result''
   \<and> (\<exists>d. query sample_host None ''count users'' None ''xml'' = (Inr d, [])
        \<and> success_of d = Some (PyBool False)
        \<and> error_field d ''code'' = Some (PyStr ''SERVER_NOT_INITIALIZED''))
   \<and> (\<exists>d. query sample_host (Some answering) ''count users'' None ''xml'' = (Inr d, [])
        \<and> success_of d = Some (PyBool False)
        \<and> error_field d ''code'' = Some (PyStr ''INVALID_PARAMETER''))"
proof -
  have n: "''xml'' \<noteq> ''sql'' \<and> ''xml'' \<noteq> ''result''" by simp
  from query_guards [of sample_host "''count users''" None "''xml''" answering] n
  show ?thesis by blast
qed

text \<open>
  C8, as the code has it. The tool never lets an instance of \<open>Exception\<close> through:
  for every input, whenever a step inside the request scope raises an \<open>Exception\<close>, the
  tool returns a dict with \<open>success = False\<close> and an \<open>error\<close> object whose code is
  \<open>INVALID_REQUEST\<close>, with message and details. What it can raise is an exception that
  is only a \<open>BaseException\<close>.
\<close>

theorem query_returns_error_for_Exception:
  "(fst (query h orchestrator question database return_type) = Inl e \<longrightarrow> \<not> is_Exception e)
   \<and> (return_type \<in> set [''sql'', ''result'']
        \<and> request_scope h execute_query question database return_type = (Inl e, calls)
        \<and> is_Exception e \<longrightarrow>
        (\<exists>d. query h (Some execute_query) question database return_type = (Inr d, calls)
           \<and> success_of d = Some (PyBool False)
           \<and> error_field d ''code'' = Some (PyStr ''INVALID_REQUEST'')
           \<and> error_field d ''message''
               = Some (PyStr (''Invalid request parameters: '' @ str_exc e))
           \<and> error_field d ''details'' = Some (PyDict [(''error'', PyStr (str_exc e))])))"
proof -
  have a: "\<not> is_Exception e"
    if "fst (query h orchestrator question database return_type) = Inl e"
    using that unfolding query_def
    by (auto split: option.splits if_splits prod.splits sum.splits)
  have b: "\<exists>d. query h (Some execute_query) question database return_type = (Inr d, calls)
           \<and> success_of d = Some (PyBool False)
           \<and> error_field d ''code'' = Some (PyStr ''INVALID_REQUEST'')
           \<and> error_field d ''message''
               = Some (PyStr (''Invalid request parameters: '' @ str_exc e))
           \<and> error_field d ''details'' = Some (PyDict [(''error'', PyStr (str_exc e))])"
    if "return_type \<in> set [''sql'', ''result'']"
      "request_scope h execute_query question database return_type = (Inl e, calls)"
      "is_Exception e"
    using that by (simp add: query_def error_response_fields)
  from a b show ?thesis by blast
qed

theorem query_returns_error_for_Exception_witness:
  "''result'' \<in> set [''sql'', ''result'']
   \<and> request_scope sample_host answering [] None ''result''
       = (Inl (LibException ''question must not be empty''), [])
   \<and> is_Exception (LibException ''question must not be empty'')
   \<and> (\<exists>d. query sample_host (Some answering) [] None ''result'' = (Inr d, [])
        \<and> success_of d = Some (PyBool False)
        \<and> error_field d ''code'' = Some (PyStr ''INVALID_REQUEST''))
   \<and> fst (query sample_host (Some cancelled) ''count users'' None ''result'')
       = Inl (BaseOnly ''CancelledError'')
   \<and> \<not> is_Exception (BaseOnly ''CancelledError'')"
proof -
  have m: "''result'' \<in> set [''sql'', ''result'']" by simp
  have r: "request_scope sample_host answering [] None ''result''
       = (Inl (LibException ''question must not be empty''), [])"
    by (simp add: request_scope_def sample_host_def)
  have i: "is_Exception (LibException ''question must not be empty'')" by simp
  have c: "fst (query sample_host (Some cancelled) ''count users'' None ''result'')
       = Inl (BaseOnly ''CancelledError'')"
    by (simp add: query_def request_scope_def sample_host_def cancelled_def)
  from query_returns_error_for_Exception [of sample_host "Some answering" "[]" None
      "''result''" "LibException ''question must not be empty''" answering "[]"]
    query_returns_error_for_Exception [of sample_host "Some cancelled" "''count users''" None
      "''result''" "BaseOnly ''CancelledError''" cancelled "[]"]
    m r i c
  show ?thesis by auto
qed

text \<open>
  The claim as stated fails: a cancellation raised inside the request scope
  (\<open>asyncio.CancelledError\<close>, which \<open>except Exception\<close> does not catch) leaves the
  tool as an exception.
\<close>

theorem query_propagates_cancellation:
  "query sample_host (Some cancelled) ''count users'' None ''result''
     = (Inl (BaseOnly ''CancelledError''), [''count users''])"
  by (simp add: query_def request_scope_def sample_host_def cancelled_def)

section \<open>Facts about the pools\<close>

text \<open>
  C9, as the code has it. When startup creates its pools, a second pool is created and
  registered under \<open>DATABASE2_NAME\<close> exactly when that variable is set to a non-empty
  value; then its host, user and password are the \<open>DATABASE2_*\<close> values when set
  and the primary's values otherwise, and its port is the primary's when
  \<open>DATABASE2_PORT\<close> is unset; when \<open>DATABASE2_NAME\<close> is unset or empty, the registry
  holds exactly the primary pool.
\<close>

theorem second_pool_registration:
  assumes "create_pools env py_int create_pool = Inr pools"
  shows "\<exists>port1 pool1.
           py_int (getenv env ''DATABASE_PORT'' ''5432'') = Inr port1
         \<and> create_pool (db1_config env port1) = Inr pool1
         \<and> (if getenv_truthy env ''DATABASE2_NAME''
            then (\<exists>port2 pool2.
                   py_int (getenv env ''DATABASE2_PORT'' (getenv env ''DATABASE_PORT'' ''5432''))
                     = Inr port2
                 \<and> create_pool (db2_config env port2) = Inr pool2
                 \<and> pools = [db_name (db1_config env port1) \<mapsto> pool1]
                             (db_name (db2_config env port2) \<mapsto> pool2)
                 \<and> env ''DATABASE2_NAME'' = Some (db_name (db2_config env port2))
                 \<and> pools (db_name (db2_config env port2)) = Some pool2
                 \<and> db_host (db2_config env port2)
                     = (case env ''DATABASE2_HOST'' of Some v \<Rightarrow> v | None \<Rightarrow> db_host (db1_config env port1))
                 \<and> db_user (db2_config env port2)
                     = (case env ''DATABASE2_USER'' of Some v \<Rightarrow> v | None \<Rightarrow> db_user (db1_config env port1))
                 \<and> db_password (db2_config env port2)
                     = (case env ''DATABASE2_PASSWORD'' of Some v \<Rightarrow> v | None \<Rightarrow> db_password (db1_config env port1))
                 \<and> (env ''DATABASE2_PORT'' = None \<longrightarrow> port2 = port1))
            else pools = [db_name (db1_config env port1) \<mapsto> pool1]
                 \<and> dom pools = {db_name (db1_config env port1)})"
proof -
  from assms obtain port1 pool1 where
    p1: "py_int (getenv env ''DATABASE_PORT'' ''5432'') = Inr port1"
    and c1: "create_pool (db1_config env port1) = Inr pool1"
    by (auto simp: create_pools_def split: sum.splits)
  show ?thesis
  proof (cases "getenv_truthy env ''DATABASE2_NAME''")
    case False
    with assms p1 c1 have "pools = [db_name (db1_config env port1) \<mapsto> pool1]"
      by (simp add: create_pools_def)
    with False p1 c1 show ?thesis by auto
  next
    case True
    with assms p1 c1 obtain port2 pool2 where
      p2: "py_int (getenv env ''DATABASE2_PORT'' (getenv env ''DATABASE_PORT'' ''5432''))
             = Inr port2"
      and c2: "create_pool (db2_config env port2) = Inr pool2"
      and ps: "pools = [db_name (db1_config env port1) \<mapsto> pool1]
                        (db_name (db2_config env port2) \<mapsto> pool2)"
      by (auto simp: create_pools_def split: sum.splits)
    from True have nm: "env ''DATABASE2_NAME'' = Some (db_name (db2_config env port2))"
      by (auto simp: getenv_truthy_def db2_config_def getenv_def split: option.splits)
    have fb: "db_host (db2_config env port2)
                = (case env ''DATABASE2_HOST'' of Some v \<Rightarrow> v | None \<Rightarrow> db_host (db1_config env port1))"
      "db_user (db2_config env port2)
                = (case env ''DATABASE2_USER'' of Some v \<Rightarrow> v | None \<Rightarrow> db_user (db1_config env port1))"
      "db_password (db2_config env port2)
                = (case env ''DATABASE2_PASSWORD'' of Some v \<Rightarrow> v | None \<Rightarrow> db_password (db1_config env port1))"
      by (simp_all add: db2_config_def db1_config_def getenv_def split: option.splits)
    have pt: "port2 = port1" if "env ''DATABASE2_PORT'' = None"
      using that p1 p2 by (simp add: getenv_def)
    from True p1 c1 p2 c2 ps nm fb pt show ?thesis by auto
  qed
qed

lemma second_env_pools:
  "create_pools second_env sample_int sample_pool
     = Inr [''app'' \<mapsto> \<lparr> db_host = ''db.local'', db_port = 5432, db_name = ''app'',
                           db_user = ''reader'', db_password = [] \<rparr>,
            ''analytics'' \<mapsto> \<lparr> db_host = ''db.local'', db_port = 5432,
                                 db_name = ''analytics'', db_user = ''analyst'',
                                 db_password = [] \<rparr>]"
  by (simp add: create_pools_def second_env_def sample_int_def sample_pool_def getenv_def
      getenv_truthy_def db1_config_def db2_config_def)

theorem second_pool_registration_witness:
  "create_pools second_env sample_int sample_pool
     = Inr [''app'' \<mapsto> \<lparr> db_host = ''db.local'', db_port = 5432, db_name = ''app'',
                           db_user = ''reader'', db_password = [] \<rparr>,
            ''analytics'' \<mapsto> \<lparr> db_host = ''db.local'', db_port = 5432,
                                 db_name = ''analytics'', db_user = ''analyst'',
                                 db_password = [] \<rparr>]
   \<and> (\<exists>port1 pool1. sample_int (getenv second_env ''DATABASE_PORT'' ''5432'') = Inr port1
         \<and> sample_pool (db1_config second_env port1) = Inr pool1)"
proof -
  from second_pool_registration [OF second_env_pools] second_env_pools
  show ?thesis by blast
qed

text \<open>
  The claim as stated fails: with \<open>DATABASE2_NAME\<close> set, to the empty string, only
  the primary pool is registered.
\<close>

theorem empty_second_name_registers_one_pool:
  "empty_name_env ''DATABASE2_NAME'' = Some []
   \<and> create_pools empty_name_env sample_int sample_pool
     = Inr [''postgres'' \<mapsto> \<lparr> db_host = ''localhost'', db_port = 5432,
                                db_name = ''postgres'', db_user = ''postgres'',
                                db_password = [] \<rparr>]"
  by (simp add: create_pools_def empty_name_env_def sample_int_def sample_pool_def getenv_def
      getenv_truthy_def db1_config_def)

end
